theory Spec2Isabelle
  imports Complex_Main
begin

section \<open>Numbers, vectors and configuration\<close>

text \<open>
  JavaScript numbers are modelled as reals. \<open>a || b\<close> on numbers yields \<open>b\<close> when
  \<open>a\<close> is zero and \<open>a\<close> otherwise; \<open>Math.sign\<close> is \<open>sgn\<close>.
\<close>

definition js_or :: "real \<Rightarrow> real \<Rightarrow> real" where
  "js_or a b = (if a = 0 then b else a)"

record vector3 =
  vx :: real
  vy :: real
  vz :: real

definition distanceToSquared :: "vector3 \<Rightarrow> vector3 \<Rightarrow> real" where
  "distanceToSquared a b =
     (let dx = vx a - vx b; dy = vy a - vy b; dz = vz a - vz b
      in dx * dx + dy * dy + dz * dz)"

definition distanceTo :: "vector3 \<Rightarrow> vector3 \<Rightarrow> real" where
  "distanceTo a b = sqrt (distanceToSquared a b)"

text \<open>The fields of \<open>Config.js\<close> that the simulation logic reads.\<close>

record config =
  roadSurfaceY :: real
  roadWidth :: real
  roadLength :: real
  junctionSize :: real
  numJunctions :: nat
  ambulanceSpeed :: real
  ambulanceFadeOutDuration :: real
  sirenDetectionRadius :: real
  ambulancePreemptionRadius :: real
  ambulanceLaneOffsetZ :: real
  trafficLightGreenDuration :: real
  trafficLightYellowDuration :: real
  reflectorSpacing :: real
  reflectorDetectionChainRadius :: real
  reflectorSignalDuration :: real
  laneWidth :: real
  carEvadeDistance :: real
  carEvadeShiftZ :: real
  carStopDistanceToJunction :: real
  carDetectionDistanceToJunction :: real
  redLightOn :: nat
  redLightOff :: nat
  yellowLightOn :: nat
  yellowLightOff :: nat
  greenLightOn :: nat
  greenLightOff :: nat

definition Config :: config where
  "Config = \<lparr> roadSurfaceY = 0.05, roadWidth = 8, roadLength = 70, junctionSize = 12,
     numJunctions = 3, ambulanceSpeed = 0.25, ambulanceFadeOutDuration = 2.0,
     sirenDetectionRadius = 60, ambulancePreemptionRadius = 150,
     ambulanceLaneOffsetZ = - 1.75,
     trafficLightGreenDuration = 8000, trafficLightYellowDuration = 2000,
     reflectorSpacing = 6, reflectorDetectionChainRadius = 4.0,
     reflectorSignalDuration = 1500,
     laneWidth = 3.5, carEvadeDistance = 25, carEvadeShiftZ = 2.5,
     carStopDistanceToJunction = 8, carDetectionDistanceToJunction = 25,
     redLightOn = 0xff0000, redLightOff = 0x440000,
     yellowLightOn = 0xffff00, yellowLightOff = 0x444400,
     greenLightOn = 0x00ff00, greenLightOff = 0x004400 \<rparr>"

text \<open>\<open>Config.colors?.c || d\<close> on colour codes.\<close>

definition colour_or :: "nat \<Rightarrow> nat \<Rightarrow> nat" where
  "colour_or a b = (if a = 0 then b else a)"

datatype error = TypeError

datatype console =
    StateChangeBlocked string string
  | SettingState string string bool
  | InvalidJunctionIndex int
  | InvalidJunctionCenter int

section \<open>TrafficLight.js\<close>

datatype light_state = RED | YELLOW | GREEN | OFF

fun light_state_name :: "light_state \<Rightarrow> string" where
  "light_state_name RED = ''RED''"
| "light_state_name YELLOW = ''YELLOW''"
| "light_state_name GREEN = ''GREEN''"
| "light_state_name OFF = ''OFF''"

record material =
  color :: nat
  emissive :: nat
  emissiveIntensity :: real

record lamps =
  red :: material
  yellow :: material
  green :: material

record TrafficLight =
  tl_id :: string
  currentState :: light_state
  isOverridden :: bool
  lights :: lamps

definition lampOff :: "nat \<Rightarrow> material" where
  "lampOff c = \<lparr> color = c, emissive = c, emissiveIntensity = 0.2 \<rparr>"

definition lampOn :: "nat \<Rightarrow> material" where
  "lampOn c = \<lparr> color = c, emissive = c, emissiveIntensity = 1.0 \<rparr>"

text \<open>
  \<open>setLightState(state, isPriorityOverride, forceSilent)\<close>: the light after the call
  and what the call prints. A blocked call returns before any field is written.
\<close>

definition setLightState ::
  "TrafficLight \<Rightarrow> light_state \<Rightarrow> bool \<Rightarrow> bool \<Rightarrow> TrafficLight \<times> console list" where
  "setLightState light state isPriorityOverride forceSilent =
     (if \<not> isPriorityOverride \<and> isOverridden light then
        (light, if \<not> forceSilent then [StateChangeBlocked (tl_id light) (light_state_name state)] else [])
      else
        (let redOffColor = colour_or (redLightOff Config) 0x440000;
             yellowOffColor = colour_or (yellowLightOff Config) 0x444400;
             greenOffColor = colour_or (greenLightOff Config) 0x004400;
             redOnColor = colour_or (redLightOn Config) 0xff0000;
             yellowOnColor = colour_or (yellowLightOn Config) 0xffff00;
             greenOnColor = colour_or (greenLightOn Config) 0x00ff00;
             allOff = \<lparr> red = lampOff redOffColor, yellow = lampOff yellowOffColor,
                        green = lampOff greenOffColor \<rparr>;
             lit = (case state of
                      RED \<Rightarrow> allOff\<lparr> red := lampOn redOnColor \<rparr>
                    | YELLOW \<Rightarrow> allOff\<lparr> yellow := lampOn yellowOnColor \<rparr>
                    | GREEN \<Rightarrow> allOff\<lparr> green := lampOn greenOnColor \<rparr>
                    | OFF \<Rightarrow> allOff)
         in (light\<lparr> currentState := state, lights := lit \<rparr>,
             if \<not> forceSilent
             then [SettingState (tl_id light) (light_state_name state) isPriorityOverride]
             else [])))"

definition setPriority :: "bool \<Rightarrow> TrafficLight \<Rightarrow> TrafficLight" where
  "setPriority makeGreen light =
     (let tl1 = light\<lparr> isOverridden := True \<rparr>
      in if makeGreen then fst (setLightState tl1 GREEN True False)
         else fst (setLightState tl1 RED True False))"

definition releasePriority :: "TrafficLight \<Rightarrow> TrafficLight" where
  "releasePriority light = light\<lparr> isOverridden := False \<rparr>"

text \<open>The constructor: state RED, not overridden, lamps initialised silently.\<close>

definition newTrafficLight :: "string \<Rightarrow> TrafficLight" where
  "newTrafficLight name =
     fst (setLightState
       \<lparr> tl_id = name, currentState = RED, isOverridden = False,
         lights = \<lparr> red = lampOff (colour_or (redLightOff Config) 0x440000),
                    yellow = lampOff (colour_or (yellowLightOff Config) 0x444400),
                    green = lampOff (colour_or (greenLightOff Config) 0x004400) \<rparr> \<rparr>
       RED False True)"

section \<open>SmartReflector\<close>

text \<open>
  A reflector: its position and its signalling flag. \<open>triggerSignal\<close> starts a pulse
  unless one is running; the timer callback it registers is \<open>signalTimeout\<close>.
\<close>

record SmartReflector =
  r_position :: vector3
  isSignaling :: bool

definition newSmartReflector :: "vector3 \<Rightarrow> SmartReflector" where
  "newSmartReflector pos = \<lparr> r_position = pos, isSignaling = False \<rparr>"

definition triggerSignal :: "SmartReflector \<Rightarrow> SmartReflector" where
  "triggerSignal r = (if isSignaling r then r else r\<lparr> isSignaling := True \<rparr>)"

definition signalTimeout :: "SmartReflector \<Rightarrow> SmartReflector" where
  "signalTimeout r = r\<lparr> isSignaling := False \<rparr>"

definition canDetectAmbulance :: "SmartReflector \<Rightarrow> vector3 \<Rightarrow> bool" where
  "canDetectAmbulance r ambulancePosition =
     (distanceTo (r_position r) ambulancePosition < js_or (sirenDetectionRadius Config) 40)"

definition isAmbulanceNear :: "SmartReflector \<Rightarrow> vector3 \<Rightarrow> bool" where
  "isAmbulanceNear r otherReflectorPosition =
     (distanceTo (r_position r) otherReflectorPosition
        < js_or (reflectorDetectionChainRadius Config) 3.0)"

section \<open>Ambulance.js\<close>

text \<open>
  The fields of the ambulance that the logic reads or writes; \<open>model\<close> tells whether the
  model object has been loaded, \<open>amb_position\<close> is \<open>group.position\<close>. Opacity, scale,
  orientation and sound are presentation and are left out.
\<close>

record ambulance =
  path :: "vector3 list"
  currentPathIndex :: nat
  amb_speed :: real
  amb_position :: vector3
  model :: bool
  isDeactivating :: bool
  fadeOutTimer :: real
  hasFadedOut :: bool

definition subVectors :: "vector3 \<Rightarrow> vector3 \<Rightarrow> vector3" where
  "subVectors a b = \<lparr> vx = vx a - vx b, vy = vy a - vy b, vz = vz a - vz b \<rparr>"

definition lengthSq :: "vector3 \<Rightarrow> real" where
  "lengthSq v = vx v * vx v + vy v * vy v + vz v * vz v"

definition normalize :: "vector3 \<Rightarrow> vector3" where
  "normalize v =
     (let l = js_or (sqrt (lengthSq v)) 1
      in \<lparr> vx = vx v * (1 / l), vy = vy v * (1 / l), vz = vz v * (1 / l) \<rparr>)"

definition addScaledVector :: "vector3 \<Rightarrow> vector3 \<Rightarrow> real \<Rightarrow> vector3" where
  "addScaledVector p v s =
     \<lparr> vx = vx p + vx v * s, vy = vy p + vy v * s, vz = vz p + vz v * s \<rparr>"

definition newAmbulance :: "vector3 list \<Rightarrow> ambulance" where
  "newAmbulance pathPoints =
     \<lparr> path = pathPoints, currentPathIndex = 0, amb_speed = ambulanceSpeed Config,
       amb_position = (if length pathPoints > 0 then pathPoints ! 0
                       else \<lparr> vx = 0, vy = 0, vz = 0 \<rparr>),
       model = False, isDeactivating = False, fadeOutTimer = 0, hasFadedOut = False \<rparr>"

definition deactivate :: "ambulance \<Rightarrow> ambulance" where
  "deactivate a = a\<lparr> isDeactivating := True \<rparr>"

definition activate :: "ambulance \<Rightarrow> ambulance" where
  "activate a =
     (let a1 = a\<lparr> currentPathIndex := 0, isDeactivating := False, hasFadedOut := False,
                  fadeOutTimer := 0 \<rparr>
      in if length (path a1) > 0 then a1\<lparr> amb_position := path a1 ! 0 \<rparr> else a1)"

definition ambulance_update :: "real \<Rightarrow> ambulance \<Rightarrow> ambulance" where
  "ambulance_update deltaTime a =
     (if hasFadedOut a then a
      else if isDeactivating a then
        (let a1 = a\<lparr> fadeOutTimer := fadeOutTimer a + deltaTime \<rparr>;
             fadeDuration = js_or (ambulanceFadeOutDuration Config) 2.0;
             fadeProgress = min 1 (fadeOutTimer a1 / fadeDuration)
         in if fadeProgress \<ge> 1 then a1\<lparr> hasFadedOut := True \<rparr> else a1)
      else if length (path a) = 0 \<or> currentPathIndex a \<ge> length (path a) \<or> \<not> model a then a
      else
        (let targetPosition = path a ! currentPathIndex a;
             currentPosition = amb_position a;
             directionToTarget = subVectors targetPosition currentPosition;
             distanceToTargetSq = lengthSq directionToTarget;
             moveSpeed = amb_speed a
         in if distanceToTargetSq < moveSpeed * moveSpeed * 0.1 \<or> distanceToTargetSq < 0.01 then
              (let a1 = a\<lparr> currentPathIndex := currentPathIndex a + 1 \<rparr>
               in if currentPathIndex a1 \<ge> length (path a1) then deactivate a1 else a1)
            else
              a\<lparr> amb_position :=
                   addScaledVector currentPosition (normalize directionToTarget) moveSpeed \<rparr>))"

section \<open>Junctions (main.js)\<close>

datatype phase_name = EW_GREEN | EW_YELLOW | NS_GREEN | NS_YELLOW | ALL_RED

record cycle_entry =
  phase :: phase_name
  duration :: real

definition JUNCTION_CYCLE_DEFINITION :: "cycle_entry list" where
  "JUNCTION_CYCLE_DEFINITION =
     [ \<lparr> phase = EW_GREEN, duration = js_or (trafficLightGreenDuration Config) 7000 \<rparr>,
       \<lparr> phase = EW_YELLOW, duration = js_or (trafficLightYellowDuration Config) 2000 \<rparr>,
       \<lparr> phase = ALL_RED, duration = 1000 \<rparr>,
       \<lparr> phase = NS_GREEN, duration = js_or (trafficLightGreenDuration Config) 7000 \<rparr>,
       \<lparr> phase = NS_YELLOW, duration = js_or (trafficLightYellowDuration Config) 2000 \<rparr>,
       \<lparr> phase = ALL_RED, duration = 1000 \<rparr> ]"

text \<open>
  The junction data object of \<open>setupEnvironment\<close>. The reflector chain holds references
  to reflector objects of \<open>reflectors\<close>; a reference is the object's index in that list.
  Light order: 0 south-bound, 1 north-bound, 2 west-bound, 3 east-bound.
\<close>

record junction =
  jid :: nat
  center :: vector3
  trafficLights :: "TrafficLight list"
  reflectors :: "SmartReflector list"
  reflectorChain :: "nat list"
  isAmbulanceApproaching :: bool
  hasAmbulancePassed :: bool
  currentPhaseIndex :: nat
  currentPhaseTimer :: real
  isUnderNormalCycle :: bool

text \<open>\<open>Array.prototype.findIndex\<close>, with \<open>None\<close> for -1; \<open>find\<close> returns the object at
  that index.\<close>

fun findIndex :: "('a \<Rightarrow> bool) \<Rightarrow> 'a list \<Rightarrow> nat option" where
  "findIndex P [] = None"
| "findIndex P (x # xs) = (if P x then Some 0 else map_option Suc (findIndex P xs))"

text \<open>The local helper \<open>setLight\<close> of \<open>applyJunctionPhaseState\<close>, on the light at index
  \<open>k\<close> (\<open>light?.setLightState(state, false, silent)\<close> skips a missing light).\<close>

definition setLight :: "bool \<Rightarrow> nat \<Rightarrow> light_state \<Rightarrow> TrafficLight list \<Rightarrow> TrafficLight list" where
  "setLight silent k state tls =
     (if k < length tls then tls[k := fst (setLightState (tls ! k) state False silent)]
      else tls)"

text \<open>
  \<open>applyJunctionPhaseState(junction, silent)\<close>. With fewer than four lights it warns and
  returns. Reading \<open>.phase\<close> of a cycle entry that does not exist raises a TypeError.
  \<open>phaseLights\<close> is the body after these checks: all four lights to RED, then the
  \<open>switch\<close> on the phase name.
\<close>

definition phaseLights :: "bool \<Rightarrow> phase_name \<Rightarrow> TrafficLight list \<Rightarrow> TrafficLight list" where
  "phaseLights silent currentPhaseName tls =
     (let tls0 = setLight silent 3 RED (setLight silent 2 RED
                   (setLight silent 1 RED (setLight silent 0 RED tls)))
      in case currentPhaseName of
           EW_GREEN \<Rightarrow> setLight silent 2 GREEN (setLight silent 3 GREEN tls0)
         | EW_YELLOW \<Rightarrow> setLight silent 2 YELLOW (setLight silent 3 YELLOW tls0)
         | NS_GREEN \<Rightarrow> setLight silent 0 GREEN (setLight silent 1 GREEN tls0)
         | NS_YELLOW \<Rightarrow> setLight silent 0 YELLOW (setLight silent 1 YELLOW tls0)
         | ALL_RED \<Rightarrow> tls0)"

definition applyJunctionPhaseState :: "junction \<Rightarrow> bool \<Rightarrow> error + junction" where
  "applyJunctionPhaseState junction silent =
     (if length (trafficLights junction) < 4 then Inr junction
      else if \<not> currentPhaseIndex junction < length JUNCTION_CYCLE_DEFINITION then Inl TypeError
      else
        (let currentPhaseName = phase (JUNCTION_CYCLE_DEFINITION ! currentPhaseIndex junction)
         in Inr (junction\<lparr> trafficLights :=
                   phaseLights silent currentPhaseName (trafficLights junction) \<rparr>)))"

text \<open>\<open>if (light) light.f()\<close> on the light at index \<open>k\<close>.\<close>

definition onLight :: "nat \<Rightarrow> (TrafficLight \<Rightarrow> TrafficLight) \<Rightarrow> TrafficLight list \<Rightarrow> TrafficLight list" where
  "onLight k f tls = (if k < length tls then tls[k := f (tls ! k)] else tls)"

text \<open>
  \<open>controlTrafficLightsForJunction(junctionId, givePriorityToAmbulance)\<close> on the list
  \<open>this.junctions\<close>: it works on the first junction whose id is \<open>junctionId\<close>.
  \<open>givePriority\<close> is its first branch and \<open>releaseControl\<close> its second, on the junction
  found.
\<close>

definition givePriority :: "junction \<Rightarrow> junction" where
  "givePriority junction =
     (let j1 = junction\<lparr> isUnderNormalCycle := False \<rparr>
      in j1\<lparr> trafficLights :=
              onLight 0 (setPriority False) (onLight 1 (setPriority False)
                (onLight 2 (setPriority True) (onLight 3 (setPriority True)
                   (trafficLights j1)))) \<rparr>)"

definition releaseControl :: "junction \<Rightarrow> error + junction" where
  "releaseControl junction =
     (let j1 = junction\<lparr> trafficLights := map releasePriority (trafficLights junction) \<rparr>;
          j2 = j1\<lparr> isUnderNormalCycle := True \<rparr>;
          initialPhaseIndex =
            (case findIndex (\<lambda>p. phase p = ALL_RED) JUNCTION_CYCLE_DEFINITION of
               None \<Rightarrow> 0 | Some k \<Rightarrow> k);
          j3 = j2\<lparr> currentPhaseIndex := initialPhaseIndex \<rparr>;
          j4 = j3\<lparr> currentPhaseTimer :=
                 js_or (duration (JUNCTION_CYCLE_DEFINITION ! currentPhaseIndex j3)) 1000
                   / 1000 \<rparr>
      in applyJunctionPhaseState j4 True)"

definition controlTrafficLightsForJunction ::
  "junction list \<Rightarrow> nat \<Rightarrow> bool \<Rightarrow> error + junction list" where
  "controlTrafficLightsForJunction js junctionId givePriorityToAmbulance =
     (case findIndex (\<lambda>j. jid j = junctionId) js of
        None \<Rightarrow> Inr js
      | Some n \<Rightarrow>
          if givePriorityToAmbulance then Inr (js[n := givePriority (js ! n)])
          else (case releaseControl (js ! n) of
                  Inl e \<Rightarrow> Inl e
                | Inr j \<Rightarrow> Inr (js[n := j])))"

text \<open>\<open>manageJunctionCycles(deltaTime)\<close>: the callback on one junction, and the
  \<open>forEach\<close> over \<open>this.junctions\<close>, which a raised error leaves.\<close>

definition manageJunctionCycle :: "real \<Rightarrow> junction \<Rightarrow> error + junction" where
  "manageJunctionCycle deltaTime junction =
     (if isUnderNormalCycle junction \<and> length (trafficLights junction) > 0 then
        (let j1 = junction\<lparr> currentPhaseTimer := currentPhaseTimer junction - deltaTime \<rparr>
         in if currentPhaseTimer j1 \<le> 0 then
              (let j2 = j1\<lparr> currentPhaseIndex :=
                              (currentPhaseIndex j1 + 1) mod length JUNCTION_CYCLE_DEFINITION \<rparr>;
                   nextPhase = JUNCTION_CYCLE_DEFINITION ! currentPhaseIndex j2;
                   j3 = j2\<lparr> currentPhaseTimer := js_or (duration nextPhase) 1000 / 1000 \<rparr>
               in applyJunctionPhaseState j3 False)
            else Inr j1)
      else Inr junction)"

fun forEachJunction :: "(junction \<Rightarrow> error + junction) \<Rightarrow> junction list \<Rightarrow> error + junction list" where
  "forEachJunction f [] = Inr []"
| "forEachJunction f (j # js) =
     (case f j of
        Inl e \<Rightarrow> Inl e
      | Inr j' \<Rightarrow> (case forEachJunction f js of Inl e \<Rightarrow> Inl e | Inr js' \<Rightarrow> Inr (j' # js')))"

definition manageJunctionCycles :: "real \<Rightarrow> junction list \<Rightarrow> error + junction list" where
  "manageJunctionCycles deltaTime js = forEachJunction (manageJunctionCycle deltaTime) js"

subsection \<open>updateAmbulanceLogic\<close>

text \<open>The flag \<open>ambulanceMovingTowardsJunction\<close> of the callback, with its near-field
  override.\<close>

definition ambulanceMovingTowardsJunction :: "ambulance \<Rightarrow> junction \<Rightarrow> bool" where
  "ambulanceMovingTowardsJunction a junction =
     (let ambulancePos = amb_position a;
          distanceToJunctionCenter = distanceTo ambulancePos (center junction);
          m = (if length (path a) > currentPathIndex a then
                 (let currentAmbulanceTargetX = vx (path a ! currentPathIndex a) in
                  if (currentAmbulanceTargetX - vx (center junction))
                       * (vx ambulancePos - vx (center junction)) \<le> 0 then True
                  else if sgn (currentAmbulanceTargetX - vx ambulancePos)
                            = sgn (vx (center junction) - vx ambulancePos)
                          \<and> \<bar>vx (center junction) - vx ambulancePos\<bar>
                              < \<bar>currentAmbulanceTargetX - vx ambulancePos\<bar> then True
                  else False)
               else False)
      in if distanceToJunctionCenter < junctionSize Config * 1.5 then True else m)"

text \<open>\<open>ambulanceDirectionX\<close>: the sign of the step from the ambulance to the waypoint after
  its current target, or to the current target when that is the last one.\<close>

definition ambulanceDirectionX :: "ambulance \<Rightarrow> real" where
  "ambulanceDirectionX a =
     (if length (path a) > 1 \<and> currentPathIndex a + 1 < length (path a) then
        sgn (vx (path a ! (currentPathIndex a + 1)) - vx (amb_position a))
      else if length (path a) > 0 \<and> currentPathIndex a < length (path a) then
        sgn (vx (path a ! currentPathIndex a) - vx (amb_position a))
      else 0)"

definition passedJunctionThreshold :: real where
  "passedJunctionThreshold = junctionSize Config / 2 + roadWidth Config"

text \<open>The three parts of the callback of \<open>this.junctions.forEach\<close>, for the junction at
  index \<open>i\<close> of the list: preemption by radius, reflector activation, release. The flag
  \<open>ambulanceMovingTowardsJunction\<close> and the distance to the centre are computed once, at
  the start of the callback. The callback's own writes to its junction are
  \<open>markApproaching\<close> (after giving priority), \<open>chainReflector\<close> (a reflector fires and
  joins the chain) and \<open>markPassed\<close> (after the release).\<close>

definition markApproaching :: "junction \<Rightarrow> junction" where
  "markApproaching junction =
     junction\<lparr> isAmbulanceApproaching := True, isUnderNormalCycle := False \<rparr>"

definition chainReflector :: "nat \<Rightarrow> junction \<Rightarrow> junction" where
  "chainReflector k junction =
     junction\<lparr> reflectors := (reflectors junction)[k := triggerSignal (reflectors junction ! k)],
               reflectorChain := reflectorChain junction @ [k] \<rparr>"

definition markPassed :: "junction \<Rightarrow> junction" where
  "markPassed junction =
     junction\<lparr> isAmbulanceApproaching := False, hasAmbulancePassed := True,
               reflectorChain := [], isUnderNormalCycle := True \<rparr>"

definition preemptByRadius :: "bool \<Rightarrow> real \<Rightarrow> nat \<Rightarrow> junction list \<Rightarrow> error + junction list" where
  "preemptByRadius movingTowards distanceToJunctionCenter i js =
     (let junction = js ! i;
          preemptionRadius = js_or (ambulancePreemptionRadius Config) 150
      in if \<not> isAmbulanceApproaching junction \<and> movingTowards
              \<and> distanceToJunctionCenter < preemptionRadius then
           (case controlTrafficLightsForJunction js (jid junction) True of
              Inl e \<Rightarrow> Inl e
            | Inr js1 \<Rightarrow> Inr (js1[i := markApproaching (js1 ! i)]))
         else Inr js)"

text \<open>The condition under which the reflector at index \<open>k\<close> is activated.\<close>

definition reflectorDetects :: "ambulance \<Rightarrow> junction \<Rightarrow> nat \<Rightarrow> bool" where
  "reflectorDetects a junction k =
     (canDetectAmbulance (reflectors junction ! k) (amb_position a)
      \<or> (length (reflectorChain junction) > 0
          \<and> isAmbulanceNear (reflectors junction ! k)
               (r_position (reflectors junction ! last (reflectorChain junction)))))"

text \<open>The \<open>for (const reflector of junction.reflectors)\<close> loop, over the indices still to
  visit.\<close>

fun scanReflectors :: "ambulance \<Rightarrow> nat \<Rightarrow> nat list \<Rightarrow> junction list \<Rightarrow> error + junction list" where
  "scanReflectors a i [] js = Inr js"
| "scanReflectors a i (k # ks) js =
     (let junction = js ! i in
      if k \<in> set (reflectorChain junction) then scanReflectors a i ks js
      else if reflectorDetects a junction k then
        (let js1 = (if k \<notin> set (reflectorChain junction) then js[i := chainReflector k junction]
                    else js)
         in if \<not> isAmbulanceApproaching (js1 ! i) then
              (case controlTrafficLightsForJunction js1 (jid (js1 ! i)) True of
                 Inl e \<Rightarrow> Inl e
               | Inr js2 \<Rightarrow> Inr (js2[i := markApproaching (js2 ! i)]))
            else Inr js1)
      else scanReflectors a i ks js)"

definition activateReflectors :: "ambulance \<Rightarrow> bool \<Rightarrow> nat \<Rightarrow> junction list \<Rightarrow> error + junction list" where
  "activateReflectors a movingTowards i js =
     (let junction = js ! i in
      if length (reflectors junction) > 0 \<and> movingTowards then
        scanReflectors a i [0 ..< length (reflectors junction)] js
      else Inr js)"

definition releaseIfPassed :: "ambulance \<Rightarrow> nat \<Rightarrow> junction list \<Rightarrow> error + junction list" where
  "releaseIfPassed a i js =
     (let junction = js ! i;
          ambulancePos = amb_position a;
          dirX = ambulanceDirectionX a
      in if isAmbulanceApproaching junction then
           (let hasPhysicallyPassedJunction =
                  (if dirX > 0 then
                     vx ambulancePos > vx (center junction) + passedJunctionThreshold
                   else if dirX < 0 then
                     vx ambulancePos < vx (center junction) - passedJunctionThreshold
                   else False)
            in if hasPhysicallyPassedJunction then
                 (let targetIsPastJunction =
                        (if currentPathIndex a < length (path a) then
                           (let currentTargetPathPoint = path a ! currentPathIndex a in
                            (dirX > 0 \<and> vx currentTargetPathPoint
                                           > vx (center junction) + passedJunctionThreshold)
                            \<or> (dirX < 0 \<and> vx currentTargetPathPoint
                                             < vx (center junction) - passedJunctionThreshold)
                            \<or> currentPathIndex a + 1 = length (path a))
                         else currentPathIndex a + 1 \<ge> length (path a))
                  in if targetIsPastJunction then
                       (case controlTrafficLightsForJunction js (jid junction) False of
                          Inl e \<Rightarrow> Inl e
                        | Inr js1 \<Rightarrow> Inr (js1[i := markPassed (js1 ! i)]))
                     else Inr js)
               else Inr js)
         else Inr js)"

definition junctionCallback :: "ambulance \<Rightarrow> nat \<Rightarrow> junction list \<Rightarrow> error + junction list" where
  "junctionCallback a i js =
     (if hasAmbulancePassed (js ! i) then Inr js
      else
        (let distanceToJunctionCenter = distanceTo (amb_position a) (center (js ! i));
             movingTowards = ambulanceMovingTowardsJunction a (js ! i)
         in case preemptByRadius movingTowards distanceToJunctionCenter i js of
              Inl e \<Rightarrow> Inl e
            | Inr js1 \<Rightarrow>
                (case activateReflectors a movingTowards i js1 of
                   Inl e \<Rightarrow> Inl e
                 | Inr js2 \<Rightarrow> releaseIfPassed a i js2)))"

fun forEachIndex :: "(nat \<Rightarrow> junction list \<Rightarrow> error + junction list) \<Rightarrow> nat list \<Rightarrow> junction list
    \<Rightarrow> error + junction list" where
  "forEachIndex f [] js = Inr js"
| "forEachIndex f (i # is) js =
     (case f i js of Inl e \<Rightarrow> Inl e | Inr js1 \<Rightarrow> forEachIndex f is js1)"

definition updateAmbulanceLogic :: "ambulance option \<Rightarrow> junction list \<Rightarrow> error + junction list" where
  "updateAmbulanceLogic amb js =
     (case amb of
        None \<Rightarrow> Inr js
      | Some a \<Rightarrow>
          if \<not> model a \<or> length (path a) = 0 then Inr js
          else if currentPathIndex a \<ge> length (path a) then Inr js
          else forEachIndex (junctionCallback a) [0 ..< length js] js)"

section \<open>ProceduralCar.js\<close>

text \<open>The car's fields that the logic uses; \<open>car_position\<close> is \<open>group.position\<close>.\<close>

record car =
  car_position :: vector3
  car_length :: real
  carWidth :: real
  initialZ :: real
  speed :: real
  isEvading :: bool
  targetZ :: real
  currentSpeed :: real
  isStoppedForLight :: bool

text \<open>The constructor with its default sizes (wheel radius \<open>height * 0.25\<close>, height 1.1).\<close>

definition newProceduralCar :: "vector3 \<Rightarrow> car" where
  "newProceduralCar pos =
     \<lparr> car_position = pos\<lparr> vy := roadSurfaceY Config + 1.1 * 0.25 \<rparr>,
       car_length = 2.8, carWidth = 1.3, initialZ = vz pos, speed = 0.1,
       isEvading = False, targetZ = vz pos, currentSpeed = 0.1, isStoppedForLight = False \<rparr>"

definition lerp :: "real \<Rightarrow> real \<Rightarrow> real \<Rightarrow> real" where
  "lerp x y t = (1 - t) * x + t * y"

definition damp :: "real \<Rightarrow> real \<Rightarrow> real \<Rightarrow> real \<Rightarrow> real" where
  "damp x y lambda dt = lerp x y (1 - exp (- lambda * dt))"

text \<open>\<open>update(deltaTime)\<close>, statement by statement: the move along x, the wrap-around, the
  move towards \<open>targetZ\<close>, the restoring of the speed, and the zero speed of a stopped
  car.\<close>

definition moveAlongRoad :: "real \<Rightarrow> car \<Rightarrow> car" where
  "moveAlongRoad deltaTime c =
     (if \<not> isStoppedForLight c \<or> isEvading c then
        c\<lparr> car_position := (car_position c)
              \<lparr> vx := vx (car_position c) + currentSpeed c * deltaTime * 60 \<rparr> \<rparr>
      else c)"

definition wrapAround :: "car \<Rightarrow> car" where
  "wrapAround c =
     (let roadExtentX = (real (numJunctions Config) * junctionSize Config
                          + (real (numJunctions Config) + 1) * roadLength Config) / 2
                        + car_length c * 2
      in if currentSpeed c > 0 \<and> vx (car_position c) > roadExtentX then
           c\<lparr> car_position := (car_position c)\<lparr> vx := - roadExtentX \<rparr> \<rparr>
         else if currentSpeed c < 0 \<and> vx (car_position c) < - roadExtentX then
           c\<lparr> car_position := (car_position c)\<lparr> vx := roadExtentX \<rparr> \<rparr>
         else c)"

definition moveToTargetZ :: "real \<Rightarrow> car \<Rightarrow> car" where
  "moveToTargetZ deltaTime c =
     (if \<bar>vz (car_position c) - targetZ c\<bar> > 0.01 then
        c\<lparr> car_position := (car_position c)
              \<lparr> vz := damp (vz (car_position c)) (targetZ c) 5 deltaTime \<rparr> \<rparr>
      else
        (let c1 = c\<lparr> car_position := (car_position c)\<lparr> vz := targetZ c \<rparr> \<rparr>
         in if \<not> isEvading c1 \<and> vz (car_position c1) \<noteq> initialZ c1
            then c1\<lparr> targetZ := initialZ c1 \<rparr> else c1))"

definition restoreSpeed :: "car \<Rightarrow> car" where
  "restoreSpeed c =
     (if \<not> isStoppedForLight c \<and> \<not> isEvading c \<and> \<bar>currentSpeed c\<bar> < \<bar>speed c\<bar>
      then c\<lparr> currentSpeed := speed c \<rparr> else c)"

definition zeroSpeedIfStopped :: "car \<Rightarrow> car" where
  "zeroSpeedIfStopped c =
     (if isStoppedForLight c \<and> \<not> isEvading c then c\<lparr> currentSpeed := 0 \<rparr> else c)"

definition car_update :: "real \<Rightarrow> car \<Rightarrow> car" where
  "car_update deltaTime c =
     zeroSpeedIfStopped (restoreSpeed (moveToTargetZ deltaTime
       (wrapAround (moveAlongRoad deltaTime c))))"

definition checkAndHandleTrafficLight ::
  "junction option \<Rightarrow> TrafficLight option \<Rightarrow> bool \<Rightarrow> car \<Rightarrow> car" where
  "checkAndHandleTrafficLight junctionData trafficLight ambulanceIsVeryCloseAndNeedsWay c =
     (case (junctionData, trafficLight) of
        (Some jd, Some light) \<Rightarrow>
          (let carDirectionSign = sgn (speed c);
               distToJunctionCenterX = (vx (center jd) - vx (car_position c)) * carDirectionSign;
               lightLogic =
                 (if distToJunctionCenterX > 0
                     \<and> distToJunctionCenterX < carDetectionDistanceToJunction Config then
                    (let lightState = currentState light;
                         effectiveStopDist = carStopDistanceToJunction Config + car_length c / 2
                     in if (lightState = RED \<or> lightState = YELLOW)
                           \<and> distToJunctionCenterX < effectiveStopDist
                           \<and> distToJunctionCenterX > - car_length c then
                          (if \<not> isEvading c
                           then c\<lparr> isStoppedForLight := True, currentSpeed := 0 \<rparr> else c)
                        else if lightState = GREEN then
                          (let c1 = c\<lparr> isStoppedForLight := False \<rparr>
                           in if \<not> isEvading c1 then c1\<lparr> currentSpeed := speed c1 \<rparr> else c1)
                        else if isStoppedForLight c
                                \<and> \<not> (lightState = RED \<or> lightState = YELLOW) then
                          (let c1 = c\<lparr> isStoppedForLight := False \<rparr>
                           in if \<not> isEvading c1 then c1\<lparr> currentSpeed := speed c1 \<rparr> else c1)
                        else c)
                  else if distToJunctionCenterX \<le> 0 then c\<lparr> isStoppedForLight := False \<rparr>
                  else c)
           in if ambulanceIsVeryCloseAndNeedsWay
                 \<and> (isStoppedForLight c \<or> currentSpeed c < \<bar>speed c\<bar>) then
                (if isEvading c
                 then c\<lparr> isStoppedForLight := False, currentSpeed := speed c * 0.3 \<rparr>
                 else lightLogic)
              else lightLogic)
      | _ \<Rightarrow>
          (let c1 = (if isStoppedForLight c then c\<lparr> isStoppedForLight := False \<rparr> else c)
           in if \<not> isEvading c1 then c1\<lparr> currentSpeed := speed c1 \<rparr> else c1))"

definition startEvade :: "real \<Rightarrow> car \<Rightarrow> car" where
  "startEvade ambulanceTargetLaneZ c =
     (if isEvading c \<and> targetZ c \<noteq> initialZ c then c
      else
        (let c1 = c\<lparr> isEvading := True \<rparr>;
             carOriginalLaneZ = initialZ c1;
             roadEdgePositive = roadWidth Config / 2 - carWidth c1 / 2 - 0.2;
             roadEdgeNegative = - roadWidth Config / 2 + carWidth c1 / 2 + 0.2
         in if \<bar>vz (car_position c1) - ambulanceTargetLaneZ\<bar> < laneWidth Config * 0.8 then
              (if ambulanceTargetLaneZ \<le> carOriginalLaneZ then
                 (let c2 = c1\<lparr> targetZ := carOriginalLaneZ + carEvadeShiftZ Config \<rparr>
                  in if targetZ c2 > roadEdgePositive
                     then c2\<lparr> targetZ := roadEdgePositive \<rparr> else c2)
               else
                 (let c2 = c1\<lparr> targetZ := carOriginalLaneZ - carEvadeShiftZ Config \<rparr>
                  in if targetZ c2 < roadEdgeNegative
                     then c2\<lparr> targetZ := roadEdgeNegative \<rparr> else c2))
            else c1\<lparr> targetZ := initialZ c1, isEvading := False \<rparr>))"

definition stopEvade :: "car \<Rightarrow> car" where
  "stopEvade c =
     (if \<not> isEvading c \<and> \<bar>vz (car_position c) - initialZ c\<bar> < 0.1 then c
      else c\<lparr> isEvading := False, targetZ := initialZ c \<rparr>)"

subsection \<open>updateCarLogic (main.js)\<close>

definition ambulanceActive :: "ambulance option \<Rightarrow> bool" where
  "ambulanceActive amb =
     (case amb of
        None \<Rightarrow> False
      | Some a \<Rightarrow> model a \<and> currentPathIndex a < length (path a)
                    \<and> \<not> isDeactivating a \<and> \<not> hasFadedOut a)"

text \<open>The search for the car's relevant junction and light: the first junction in list
  order inside the detection window ends the search.\<close>

fun relevantJunction :: "real \<Rightarrow> car \<Rightarrow> junction list \<Rightarrow> (junction \<times> TrafficLight) option" where
  "relevantJunction carSpeedSign c [] = None"
| "relevantJunction carSpeedSign c (j_data # js) =
     (let distToJunctionX = (vx (center j_data) - vx (car_position c)) * carSpeedSign in
      if distToJunctionX > - car_length c
         \<and> distToJunctionX < carDetectionDistanceToJunction Config + 5 then
        (if length (trafficLights j_data) \<ge> 4 then
           Some (j_data, if carSpeedSign > 0 then trafficLights j_data ! 3
                         else trafficLights j_data ! 2)
         else None)
      else relevantJunction carSpeedSign c js)"

text \<open>The callback of \<open>this.proceduralCars.forEach\<close>; \<open>ambulancePos\<close> is \<open>None\<close> for
  \<open>null\<close>. \<open>ambulanceInteraction\<close> is its last part, after \<open>car.update\<close>: evading, the
  creep, and the end of evading.\<close>

definition ambulanceInteraction :: "bool \<Rightarrow> vector3 option \<Rightarrow> real \<Rightarrow> bool \<Rightarrow> car \<Rightarrow> car" where
  "ambulanceInteraction ambActive ambulancePos ambulanceLaneZ ambulanceIsVeryCloseAndNeedsWay c =
     (case (if ambActive then ambulancePos else None) of
        Some p \<Rightarrow>
          (let dX = vx (car_position c) - vx p;
               carIsGenerallyAheadOrOverlap =
                 ((speed c > 0 \<and> dX > - car_length c * 1.5)
                  \<or> (speed c < 0 \<and> dX < car_length c * 1.5));
               inProximityXForEvasion = (\<bar>dX\<bar> < carEvadeDistance Config)
           in if carIsGenerallyAheadOrOverlap \<and> inProximityXForEvasion then
                (let c1 = (if \<not> isEvading c then startEvade ambulanceLaneZ c else c)
                 in if isEvading c1 \<and> isStoppedForLight c1 \<and> ambulanceIsVeryCloseAndNeedsWay
                    then c1\<lparr> isStoppedForLight := False, currentSpeed := speed c1 * 0.25 \<rparr>
                    else c1)
              else (if isEvading c then stopEvade c else c))
      | None \<Rightarrow>
          (let c1 = (if isEvading c then stopEvade c else c)
           in if \<not> isStoppedForLight c1 \<and> \<bar>currentSpeed c1\<bar> < \<bar>speed c1\<bar>
              then c1\<lparr> currentSpeed := speed c1 \<rparr> else c1))"

definition updateCar ::
  "real \<Rightarrow> bool \<Rightarrow> vector3 option \<Rightarrow> real \<Rightarrow> junction list \<Rightarrow> car \<Rightarrow> car" where
  "updateCar deltaTime ambActive ambulancePos ambulanceLaneZ js c =
     (let carSpeedSign = sgn (speed c);
          relevant = relevantJunction carSpeedSign c js;
          ambulanceIsVeryCloseAndNeedsWay =
            (case ambulancePos of
               None \<Rightarrow> False
             | Some p \<Rightarrow>
                 ambActive \<and>
                 (let dX = vx (car_position c) - vx p;
                      dZ = \<bar>vz (car_position c) - vz p\<bar>
                  in dX > - carEvadeDistance Config / 2 \<and> dX < car_length c * 2
                     \<and> dZ < laneWidth Config * 1.5));
          c1 = (case relevant of
                  Some (jd, light) \<Rightarrow>
                    checkAndHandleTrafficLight (Some jd) (Some light)
                      ambulanceIsVeryCloseAndNeedsWay c
                | None \<Rightarrow> c\<lparr> isStoppedForLight := False \<rparr>);
          c2 = car_update deltaTime c1
      in ambulanceInteraction ambActive ambulancePos ambulanceLaneZ
           ambulanceIsVeryCloseAndNeedsWay c2)"

definition updateCarLogic :: "real \<Rightarrow> ambulance option \<Rightarrow> junction list \<Rightarrow> car list \<Rightarrow> car list" where
  "updateCarLogic deltaTime amb js cars =
     (let ambActive = ambulanceActive amb;
          ambulancePos = (case amb of
                            Some a \<Rightarrow> if ambActive then Some (amb_position a) else None
                          | None \<Rightarrow> None);
          ambulanceLaneZ = (case amb of
                              Some a \<Rightarrow>
                                if ambActive \<and> currentPathIndex a < length (path a)
                                then vz (path a ! currentPathIndex a)
                                else ambulanceLaneOffsetZ Config
                            | None \<Rightarrow> ambulanceLaneOffsetZ Config)
      in map (updateCar deltaTime ambActive ambulancePos ambulanceLaneZ js) cars)"

section \<open>Road.js\<close>

record road =
  junctionCenters :: "vector3 list"
  road_surfaceY :: real

text \<open>The loop of \<open>createRoadLayout\<close> that places the junction centres, from the far west.\<close>

fun layoutCenters :: "real \<Rightarrow> nat list \<Rightarrow> vector3 list" where
  "layoutCenters currentX [] = []"
| "layoutCenters currentX (i # is) =
     (let x1 = currentX + roadLength Config in
      if i < numJunctions Config then
        \<lparr> vx = x1 + junctionSize Config / 2, vy = roadSurfaceY Config, vz = 0 \<rparr>
          # layoutCenters (x1 + junctionSize Config) is
      else layoutCenters x1 is)"

definition newRoad :: road where
  "newRoad =
     (let totalLengthOverall = (real (numJunctions Config) + 1) * roadLength Config
                                + real (numJunctions Config) * junctionSize Config
      in \<lparr> junctionCenters =
             sort_key vx (layoutCenters (- totalLengthOverall / 2) [0 ..< numJunctions Config + 1]),
           road_surfaceY = roadSurfaceY Config \<rparr>)"

definition getAmbulancePath :: "road \<Rightarrow> vector3 list" where
  "getAmbulancePath r =
     (let ambulanceY = road_surfaceY r + 0.2;
          totalRoadLengthEW = (real (numJunctions Config) + 1) * roadLength Config
                               + real (numJunctions Config) * junctionSize Config;
          startX = - totalRoadLengthEW / 2 - roadLength Config * 0.2;
          endX = totalRoadLengthEW / 2 + roadLength Config * 0.2;
          ambulanceLaneZ = ambulanceLaneOffsetZ Config;
          pt = (\<lambda>x. \<lparr> vx = x, vy = ambulanceY, vz = ambulanceLaneZ \<rparr>);
          middle = (if length (junctionCenters r) > 0 then
                      concat (map (\<lambda>c. [pt (vx c - junctionSize Config), pt (vx c),
                                         pt (vx c + junctionSize Config)]) (junctionCenters r))
                    else [pt 0])
      in remdups_adj ([pt startX] @ middle @ [pt endX]))"

datatype approach = West | East | South | North | OtherDirection

definition getReflectorPositions :: "road \<Rightarrow> int \<Rightarrow> approach \<Rightarrow> vector3 list \<times> console list" where
  "getReflectorPositions r junctionIndex approachDirection =
     (if junctionIndex < 0 \<or> junctionIndex \<ge> int (length (junctionCenters r)) then
        ([], [InvalidJunctionIndex junctionIndex])
      else
        (let junctionCenter = junctionCenters r ! nat junctionIndex;
             reflectorYPosition = road_surfaceY r - 0.0425;
             roadSegmentLength = roadLength Config;
             spacing = reflectorSpacing Config;
             numReflectors = nat \<lfloor>roadSegmentLength / spacing\<rfloor>;
             along = (\<lambda>start. map (\<lambda>i. start + (real i + 0.5) * spacing) [0 ..< numReflectors])
         in (case approachDirection of
               West \<Rightarrow>
                 rev (map (\<lambda>x. \<lparr> vx = x, vy = reflectorYPosition, vz = vz junctionCenter + 0 \<rparr>)
                        (along (vx junctionCenter - junctionSize Config / 2 - roadSegmentLength)))
             | East \<Rightarrow>
                 map (\<lambda>x. \<lparr> vx = x, vy = reflectorYPosition, vz = vz junctionCenter + 0 \<rparr>)
                   (along (vx junctionCenter + junctionSize Config / 2))
             | South \<Rightarrow>
                 rev (map (\<lambda>z. \<lparr> vx = vx junctionCenter + 0, vy = reflectorYPosition, vz = z \<rparr>)
                        (along (vz junctionCenter - junctionSize Config / 2 - roadSegmentLength)))
             | North \<Rightarrow>
                 map (\<lambda>z. \<lparr> vx = vx junctionCenter + 0, vy = reflectorYPosition, vz = z \<rparr>)
                   (along (vz junctionCenter + junctionSize Config / 2))
             | OtherDirection \<Rightarrow> []),
            []))"

definition getJunctionCenter :: "road \<Rightarrow> int \<Rightarrow> vector3 option \<times> console list" where
  "getJunctionCenter r junctionIndex =
     (if junctionIndex \<ge> 0 \<and> junctionIndex < int (length (junctionCenters r)) then
        (Some (junctionCenters r ! nat junctionIndex), [])
      else (None, [InvalidJunctionCenter junctionIndex]))"

section \<open>The simulation (main.js)\<close>

fun digit_char :: "nat \<Rightarrow> char" where
  "digit_char n = char_of (48 + n)"

fun show_nat :: "nat \<Rightarrow> string" where
  "show_nat n = (if n < 10 then [digit_char n] else show_nat (n div 10) @ [digit_char (n mod 10)])"

text \<open>The junction data object that \<open>setupEnvironment\<close> creates for index \<open>i\<close>, with its
  four traffic lights.\<close>

definition newJunctionData :: "nat \<Rightarrow> vector3 \<Rightarrow> junction" where
  "newJunctionData i junctionCenter =
     (let junctionData =
            \<lparr> jid = i, center = junctionCenter, trafficLights = [], reflectors = [],
              reflectorChain = [], isAmbulanceApproaching = False,
              hasAmbulancePassed = False, currentPhaseIndex = 0,
              currentPhaseTimer = js_or (duration (JUNCTION_CYCLE_DEFINITION ! 0)) 1000 / 1000,
              isUnderNormalCycle = True \<rparr>
      in junctionData\<lparr> trafficLights :=
           map (\<lambda>index. newTrafficLight (''J'' @ show_nat i @ ''_TL'' @ show_nat index))
             [0 ..< 4] \<rparr>)"

text \<open>The loop of \<open>setupEnvironment\<close> over the junction indices: a junction whose centre
  lookup yields \<open>null\<close> is skipped.\<close>

fun setupJunctions :: "road \<Rightarrow> nat list \<Rightarrow> error + junction list" where
  "setupJunctions r [] = Inr []"
| "setupJunctions r (i # is) =
     (case fst (getJunctionCenter r (int i)) of
        None \<Rightarrow> setupJunctions r is
      | Some junctionCenter \<Rightarrow>
          (case applyJunctionPhaseState (newJunctionData i junctionCenter) False of
             Inl e \<Rightarrow> Inl e
           | Inr j2 \<Rightarrow>
               (let j3 = j2\<lparr> reflectors :=
                              map newSmartReflector (fst (getReflectorPositions r (int i) West)) \<rparr>
                in case setupJunctions r is of
                     Inl e \<Rightarrow> Inl e
                   | Inr js \<Rightarrow> Inr (j3 # js))))"

definition setupEnvironment :: "road \<Rightarrow> error + junction list" where
  "setupEnvironment r = setupJunctions r [0 ..< numJunctions Config]"

text \<open>A car as \<open>setupProceduralAssets\<close> leaves it; the four random draws are parameters.\<close>

definition setupCar :: "real \<Rightarrow> real \<Rightarrow> real \<Rightarrow> real \<Rightarrow> car" where
  "setupCar carXPos carLaneRelDir carTravelDir speedMagnitude =
     (let carZPos = (laneWidth Config / 2) * carLaneRelDir;
          c = newProceduralCar \<lparr> vx = carXPos, vy = 0, vz = carZPos \<rparr>
      in c\<lparr> initialZ := carZPos, targetZ := carZPos, speed := speedMagnitude * carTravelDir \<rparr>)"

record simulation =
  junctions :: "junction list"
  sim_ambulance :: "ambulance option"
  proceduralCars :: "car list"

definition setupAmbulance :: "road \<Rightarrow> ambulance option" where
  "setupAmbulance r =
     (let ambulancePath = getAmbulancePath r
      in if length ambulancePath = 0 then None else Some (newAmbulance ambulancePath))"

definition newSimulation :: "road \<Rightarrow> car list \<Rightarrow> error + simulation" where
  "newSimulation r cars =
     (case setupEnvironment r of
        Inl e \<Rightarrow> Inl e
      | Inr js \<Rightarrow> Inr \<lparr> junctions = js, sim_ambulance = setupAmbulance r, proceduralCars = cars \<rparr>)"

text \<open>One frame: \<open>animate\<close> with the clock's delta, capped at 0.05.\<close>

definition animate :: "real \<Rightarrow> simulation \<Rightarrow> error + simulation" where
  "animate delta s =
     (let deltaTime = min delta 0.05;
          amb1 = (case sim_ambulance s of
                    None \<Rightarrow> None
                  | Some a \<Rightarrow>
                      (let a1 = ambulance_update deltaTime a
                       in if hasFadedOut a1 then None else Some a1))
      in case (case amb1 of
                 None \<Rightarrow> Inr (junctions s)
               | Some a1 \<Rightarrow> updateAmbulanceLogic (Some a1) (junctions s)) of
           Inl e \<Rightarrow> Inl e
         | Inr js1 \<Rightarrow>
             (case manageJunctionCycles deltaTime js1 of
                Inl e \<Rightarrow> Inl e
              | Inr js2 \<Rightarrow>
                  Inr (s\<lparr> junctions := js2, sim_ambulance := amb1,
                          proceduralCars := updateCarLogic deltaTime amb1 js2 (proceduralCars s) \<rparr>)))"

text \<open>
  What can happen between two frames: the delayed activation of the ambulance, the end
  of the model load, and the timer that ends the pulse of reflector \<open>k\<close> of the junction
  at index \<open>i\<close>.
\<close>

datatype event = Animate real | Activate | ModelLoaded | SignalTimeout nat nat

fun step :: "event \<Rightarrow> simulation \<Rightarrow> error + simulation" where
  "step (Animate delta) s = animate delta s"
| "step Activate s = Inr (s\<lparr> sim_ambulance := map_option activate (sim_ambulance s) \<rparr>)"
| "step ModelLoaded s =
     Inr (s\<lparr> sim_ambulance := map_option (\<lambda>a. a\<lparr> model := True \<rparr>) (sim_ambulance s) \<rparr>)"
| "step (SignalTimeout i k) s =
     Inr (if i < length (junctions s) \<and> k < length (reflectors (junctions s ! i)) then
            s\<lparr> junctions := (junctions s)
                 [i := (junctions s ! i)\<lparr> reflectors :=
                          (reflectors (junctions s ! i))
                            [k := signalTimeout (reflectors (junctions s ! i) ! k)] \<rparr>] \<rparr>
          else s)"

fun run :: "event list \<Rightarrow> simulation \<Rightarrow> error + simulation" where
  "run [] s = Inr s"
| "run (e # es) s = (case step e s of Inl err \<Rightarrow> Inl err | Inr s1 \<Rightarrow> run es s1)"

section \<open>The effect of the callback on its own junction\<close>

text \<open>
  The functions of this section are not in the source. They describe what one call of
  the \<open>forEach\<close> callback of \<open>updateAmbulanceLogic\<close> does to the junction it is called
  for; the lemmas below prove that the source functions compute exactly this when the
  junction ids are pairwise different, as \<open>setupEnvironment\<close> makes them.
\<close>

definition preemptJunction :: "junction \<Rightarrow> junction" where
  "preemptJunction j = markApproaching (givePriority j)"

definition releaseLights :: "TrafficLight list \<Rightarrow> TrafficLight list" where
  "releaseLights tls =
     (if length tls < 4 then map releasePriority tls
      else phaseLights True ALL_RED (map releasePriority tls))"

definition released :: "junction \<Rightarrow> junction" where
  "released j =
     j\<lparr> trafficLights := releaseLights (trafficLights j), isUnderNormalCycle := True,
        currentPhaseIndex := 2, currentPhaseTimer := 1 \<rparr>"

definition releaseJunction :: "junction \<Rightarrow> junction" where
  "releaseJunction j = markPassed (released j)"

definition radiusStep :: "bool \<Rightarrow> real \<Rightarrow> junction \<Rightarrow> junction" where
  "radiusStep movingTowards distanceToJunctionCenter j =
     (if \<not> isAmbulanceApproaching j \<and> movingTowards
         \<and> distanceToJunctionCenter < js_or (ambulancePreemptionRadius Config) 150
      then preemptJunction j else j)"

definition fireReflector :: "nat \<Rightarrow> junction \<Rightarrow> junction" where
  "fireReflector k j =
     (let j1 = chainReflector k j
      in if \<not> isAmbulanceApproaching j1 then preemptJunction j1 else j1)"

fun scanStep :: "ambulance \<Rightarrow> nat list \<Rightarrow> junction \<Rightarrow> junction" where
  "scanStep a [] j = j"
| "scanStep a (k # ks) j =
     (if k \<in> set (reflectorChain j) then scanStep a ks j
      else if reflectorDetects a j k then fireReflector k j
      else scanStep a ks j)"

definition reflectorStep :: "ambulance \<Rightarrow> bool \<Rightarrow> junction \<Rightarrow> junction" where
  "reflectorStep a movingTowards j =
     (if length (reflectors j) > 0 \<and> movingTowards
      then scanStep a [0 ..< length (reflectors j)] j else j)"

text \<open>The release condition of the source: \<open>hasPhysicallyPassedJunction\<close> and
  \<open>targetIsPastJunction\<close>, for a junction centre at \<open>cx\<close>.\<close>

definition releaseDue :: "ambulance \<Rightarrow> real \<Rightarrow> bool" where
  "releaseDue a cx =
     (let dirX = ambulanceDirectionX a in
      (if dirX > 0 then vx (amb_position a) > cx + passedJunctionThreshold
       else if dirX < 0 then vx (amb_position a) < cx - passedJunctionThreshold
       else False)
      \<and> (if currentPathIndex a < length (path a) then
            (dirX > 0 \<and> vx (path a ! currentPathIndex a) > cx + passedJunctionThreshold)
            \<or> (dirX < 0 \<and> vx (path a ! currentPathIndex a) < cx - passedJunctionThreshold)
            \<or> currentPathIndex a + 1 = length (path a)
          else currentPathIndex a + 1 \<ge> length (path a)))"

definition releaseStep :: "ambulance \<Rightarrow> junction \<Rightarrow> junction" where
  "releaseStep a j =
     (if isAmbulanceApproaching j \<and> releaseDue a (vx (center j)) then releaseJunction j else j)"

definition junctionStep :: "ambulance \<Rightarrow> junction \<Rightarrow> junction" where
  "junctionStep a j =
     (if hasAmbulancePassed j then j
      else releaseStep a
             (reflectorStep a (ambulanceMovingTowardsJunction a j)
                (radiusStep (ambulanceMovingTowardsJunction a j)
                   (distanceTo (amb_position a) (center j)) j)))"



text \<open>
  How a junction's preemption flags may differ between an earlier state \<open>j\<close> and a later
  state \<open>j'\<close>: the id is the same; a passed junction stays passed, with the same
  approaching flag; an approaching junction is still approaching or has passed; and
  if passed excludes approaching before, it does so after.
\<close>

definition later :: "junction \<Rightarrow> junction \<Rightarrow> bool" where
  "later j j' =
     (jid j' = jid j
      \<and> (hasAmbulancePassed j \<longrightarrow>
            hasAmbulancePassed j' \<and> isAmbulanceApproaching j' = isAmbulanceApproaching j)
      \<and> (isAmbulanceApproaching j \<longrightarrow> isAmbulanceApproaching j' \<or> hasAmbulancePassed j')
      \<and> ((hasAmbulancePassed j \<longrightarrow> \<not> isAmbulanceApproaching j) \<longrightarrow>
            (hasAmbulancePassed j' \<longrightarrow> \<not> isAmbulanceApproaching j')))"

section \<open>Notions of the specification\<close>

text \<open>
  A point with abscissa \<open>x\<close> is beyond the release threshold past the junction centre at
  \<open>cx\<close>, in the direction of travel \<open>dirX\<close>.
\<close>

definition beyondThreshold :: "real \<Rightarrow> real \<Rightarrow> real \<Rightarrow> bool" where
  "beyondThreshold dirX cx x =
     ((dirX > 0 \<and> x > cx + passedJunctionThreshold)
      \<or> (dirX < 0 \<and> x < cx - passedJunctionThreshold))"

text \<open>
  The sensor at index \<open>k\<close> of the junction's reflector list is due: it is not yet in the
  chain, and it detects the vehicle or the chain is non-empty and it is near the most
  recently chained sensor.
\<close>

definition sensorDue :: "ambulance \<Rightarrow> junction \<Rightarrow> nat \<Rightarrow> bool" where
  "sensorDue a j k =
     (k \<notin> set (reflectorChain j)
      \<and> (canDetectAmbulance (reflectors j ! k) (amb_position a)
          \<or> (reflectorChain j \<noteq> []
              \<and> isAmbulanceNear (reflectors j ! k)
                   (r_position (reflectors j ! last (reflectorChain j))))))"








text \<open>
  The states of a run after each of its events, and the number of times a flag turns
  from false to true along a sequence of its values that starts after the value \<open>a\<close>.
  \<open>preemptions i evs s\<close> counts how often the junction at index \<open>i\<close> enters PREEMPTED
  (its \<open>isAmbulanceApproaching\<close> flag turns true) in the run of \<open>evs\<close> from \<open>s\<close>.
\<close>

fun statesAfter :: "event list \<Rightarrow> simulation \<Rightarrow> simulation list" where
  "statesAfter [] s = []"
| "statesAfter (e # es) s =
     (case step e s of Inl err \<Rightarrow> [] | Inr s1 \<Rightarrow> s1 # statesAfter es s1)"

fun entriesFrom :: "bool \<Rightarrow> bool list \<Rightarrow> nat" where
  "entriesFrom a [] = 0"
| "entriesFrom a (b # bs) = (if \<not> a \<and> b then 1 else 0) + entriesFrom b bs"

definition preemptions :: "nat \<Rightarrow> event list \<Rightarrow> simulation \<Rightarrow> nat" where
  "preemptions i evs s =
     entriesFrom (isAmbulanceApproaching (junctions s ! i))
       (map (\<lambda>s1. isAmbulanceApproaching (junctions s1 ! i)) (statesAfter evs s))"

section \<open>Example states\<close>

text \<open>
  A junction as \<open>setupEnvironment\<close> builds it (four lights, the first phase applied,
  three reflectors on the western approach), and an ambulance on a two-point path
  heading east, at abscissa \<open>x\<close>, with the last point as its target.
\<close>

definition exampleJunction :: junction where
  "exampleJunction =
     \<lparr> jid = 0, center = \<lparr> vx = 0, vy = 0.05, vz = 0 \<rparr>,
       trafficLights = phaseLights False EW_GREEN
         (map newTrafficLight [''J0_TL0'', ''J0_TL1'', ''J0_TL2'', ''J0_TL3'']),
       reflectors = map newSmartReflector
         [\<lparr> vx = - 13, vy = 0.0075, vz = 0 \<rparr>, \<lparr> vx = - 19, vy = 0.0075, vz = 0 \<rparr>,
          \<lparr> vx = - 25, vy = 0.0075, vz = 0 \<rparr>],
       reflectorChain = [], isAmbulanceApproaching = False, hasAmbulancePassed = False,
       currentPhaseIndex = 0, currentPhaseTimer = 8, isUnderNormalCycle = True \<rparr>"

definition exampleAmbulance :: "real \<Rightarrow> ambulance" where
  "exampleAmbulance x =
     \<lparr> path = [\<lparr> vx = - 200, vy = 0.25, vz = - 1.75 \<rparr>, \<lparr> vx = 200, vy = 0.25, vz = - 1.75 \<rparr>],
       currentPathIndex = 1, amb_speed = 0.25,
       amb_position = \<lparr> vx = x, vy = 0.25, vz = - 1.75 \<rparr>,
       model = True, isDeactivating = False, fadeOutTimer = 0, hasFadedOut = False \<rparr>"




text \<open>
  An ambulance about to reach the last point of its path, and a west-bound car in the
  ambulance's lane, twelve units behind that point, that has moved aside.
\<close>

definition exampleAmbulanceAtEnd :: ambulance where
  "exampleAmbulanceAtEnd =
     \<lparr> path = [\<lparr> vx = - 172, vy = 0.25, vz = - 1.75 \<rparr>, \<lparr> vx = 172, vy = 0.25, vz = - 1.75 \<rparr>],
       currentPathIndex = 1, amb_speed = 0.25,
       amb_position = \<lparr> vx = 171.99, vy = 0.25, vz = - 1.75 \<rparr>,
       model = True, isDeactivating = False, fadeOutTimer = 0, hasFadedOut = False \<rparr>"

definition exampleCar :: car where
  "exampleCar =
     \<lparr> car_position = \<lparr> vx = 160, vy = 0.325, vz = 0.75 \<rparr>,
       car_length = 2.8, carWidth = 1.3, initialZ = - 1.75, speed = - 0.1,
       isEvading = True, targetZ = 0.75, currentSpeed = - 0.1, isStoppedForLight = False \<rparr>"

text \<open>The car one tick of 0.05 s later, and the ambulance after its path has ended.\<close>

definition exampleCarMoved :: car where
  "exampleCarMoved = exampleCar\<lparr> car_position := \<lparr> vx = 159.7, vy = 0.325, vz = 0.75 \<rparr> \<rparr>"

definition exampleAmbulanceFading :: ambulance where
  "exampleAmbulanceFading =
     exampleAmbulanceAtEnd\<lparr> currentPathIndex := 2, isDeactivating := True \<rparr>"

definition exampleSimulation :: simulation where
  "exampleSimulation =
     \<lparr> junctions = [exampleJunction], sim_ambulance = Some (exampleAmbulance (- 80)),
       proceduralCars = [exampleCar] \<rparr>"

section \<open>The callback acts on its own junction\<close>

text \<open>
  With pairwise different junction ids the lookup by id in
  \<open>controlTrafficLightsForJunction\<close> finds the junction the callback runs for, no call
  raises, and \<open>updateAmbulanceLogic\<close> maps \<open>junctionStep\<close> over the junctions.
\<close>

lemma findIndex_distinct:
  "distinct (map f xs) \<Longrightarrow> i < length xs \<Longrightarrow> findIndex (\<lambda>x. f x = f (xs ! i)) xs = Some i"
proof (induction xs arbitrary: i)
  case Nil
  then show ?case by simp
next
  case (Cons x xs)
  show ?case
  proof (cases i)
    case 0
    then show ?thesis by simp
  next
    case (Suc n)
    with Cons.prems have "f x \<noteq> f (xs ! n)" by auto
    with Cons Suc show ?thesis by simp
  qed
qed

lemma cycle_length: "length JUNCTION_CYCLE_DEFINITION = 6"
  by (simp add: JUNCTION_CYCLE_DEFINITION_def)

lemma cycle_all_red: "findIndex (\<lambda>p. phase p = ALL_RED) JUNCTION_CYCLE_DEFINITION = Some 2"
  by (simp add: JUNCTION_CYCLE_DEFINITION_def)

lemma cycle_phase_2: "phase (JUNCTION_CYCLE_DEFINITION ! 2) = ALL_RED"
  by (simp add: JUNCTION_CYCLE_DEFINITION_def)

lemma cycle_duration_2: "js_or (duration (JUNCTION_CYCLE_DEFINITION ! 2)) 1000 / 1000 = 1"
  by (simp add: JUNCTION_CYCLE_DEFINITION_def js_or_def)

lemma length_setLight [simp]: "length (setLight s k st tls) = length tls"
  by (simp add: setLight_def)

lemma length_onLight [simp]: "length (onLight k f tls) = length tls"
  by (simp add: onLight_def)

lemma length_phaseLights [simp]: "length (phaseLights s p tls) = length tls"
  by (simp add: phaseLights_def Let_def split: phase_name.splits)

lemma length_releaseLights [simp]: "length (releaseLights tls) = length tls"
  by (simp add: releaseLights_def)

lemma releaseControl_eq: "releaseControl j = Inr (released j)"
  by (cases j)
    (simp add: releaseControl_def released_def Let_def applyJunctionPhaseState_def
      cycle_all_red cycle_length cycle_phase_2 cycle_duration_2 releaseLights_def)

lemma control_give:
  assumes "distinct (map jid js)" "i < length js"
  shows "controlTrafficLightsForJunction js (jid (js ! i)) True =
           Inr (js[i := givePriority (js ! i)])"
  using findIndex_distinct [OF assms]
  by (simp add: controlTrafficLightsForJunction_def)

lemma control_release:
  assumes "distinct (map jid js)" "i < length js"
  shows "controlTrafficLightsForJunction js (jid (js ! i)) False =
           Inr (js[i := released (js ! i)])"
  using findIndex_distinct [OF assms]
  by (simp add: controlTrafficLightsForJunction_def releaseControl_eq)

lemma jid_givePriority [simp]: "jid (givePriority j) = jid j"
  by (simp add: givePriority_def Let_def)

lemma jid_markApproaching [simp]: "jid (markApproaching j) = jid j"
  by (simp add: markApproaching_def)

lemma jid_markPassed [simp]: "jid (markPassed j) = jid j"
  by (simp add: markPassed_def)

lemma jid_chainReflector [simp]: "jid (chainReflector k j) = jid j"
  by (simp add: chainReflector_def)

lemma jid_released [simp]: "jid (released j) = jid j"
  by (simp add: released_def)

lemma jid_preemptJunction [simp]: "jid (preemptJunction j) = jid j"
  by (simp add: preemptJunction_def)

lemma jid_releaseJunction [simp]: "jid (releaseJunction j) = jid j"
  by (simp add: releaseJunction_def)

lemma map_jid_update: "jid j' = jid (js ! i) \<Longrightarrow> map jid (js[i := j']) = map jid js"
  by (metis list_update_id map_update)

lemma preemptByRadius_eq:
  assumes "distinct (map jid js)" "i < length js"
  shows "preemptByRadius m d i js = Inr (js[i := radiusStep m d (js ! i)])"
  using assms control_give [OF assms]
  by (simp add: preemptByRadius_def radiusStep_def preemptJunction_def Let_def)

lemma jid_fireReflector [simp]: "jid (fireReflector k j) = jid j"
  by (simp add: fireReflector_def Let_def)

lemma scanReflectors_eq:
  assumes "distinct (map jid js)" "i < length js"
  shows "scanReflectors a i ks js = Inr (js[i := scanStep a ks (js ! i)])"
proof (induction ks)
  case Nil
  then show ?case by simp
next
  case (Cons k ks)
  let ?js1 = "js[i := chainReflector k (js ! i)]"
  have d1: "distinct (map jid ?js1)"
    using assms by (simp add: map_jid_update)
  have l1: "i < length ?js1" using assms by simp
  have c1: "controlTrafficLightsForJunction ?js1 (jid (js ! i)) True =
           Inr (js[i := givePriority (chainReflector k (js ! i))])"
    using control_give [OF d1 l1] assms by simp
  show ?case
    using Cons assms c1
    by (simp add: Let_def fireReflector_def preemptJunction_def)
qed

lemma activateReflectors_eq:
  assumes "distinct (map jid js)" "i < length js"
  shows "activateReflectors a m i js = Inr (js[i := reflectorStep a m (js ! i)])"
  using assms scanReflectors_eq [OF assms]
  by (simp add: activateReflectors_def reflectorStep_def Let_def)

lemma releaseIfPassed_eq:
  assumes "distinct (map jid js)" "i < length js"
  shows "releaseIfPassed a i js = Inr (js[i := releaseStep a (js ! i)])"
  using assms control_release [OF assms]
  by (auto simp add: releaseIfPassed_def releaseStep_def releaseDue_def releaseJunction_def Let_def)

lemma jid_radiusStep [simp]: "jid (radiusStep m d j) = jid j"
  by (simp add: radiusStep_def)

lemma jid_scanStep [simp]: "jid (scanStep a ks j) = jid j"
  by (induction ks) simp_all

lemma jid_reflectorStep [simp]: "jid (reflectorStep a m j) = jid j"
  by (simp add: reflectorStep_def)

lemma jid_releaseStep [simp]: "jid (releaseStep a j) = jid j"
  by (simp add: releaseStep_def)

lemma jid_junctionStep [simp]: "jid (junctionStep a j) = jid j"
  by (simp add: junctionStep_def)

lemma center_preemptJunction [simp]: "center (preemptJunction j) = center j"
  by (simp add: preemptJunction_def markApproaching_def givePriority_def Let_def)

lemma center_radiusStep [simp]: "center (radiusStep m d j) = center j"
  by (simp add: radiusStep_def)

lemma junctionCallback_eq:
  assumes "distinct (map jid js)" "i < length js"
  shows "junctionCallback a i js = Inr (js[i := junctionStep a (js ! i)])"
proof (cases "hasAmbulancePassed (js ! i)")
  case True
  then show ?thesis by (simp add: junctionCallback_def junctionStep_def)
next
  case False
  let ?m = "ambulanceMovingTowardsJunction a (js ! i)"
  let ?d = "distanceTo (amb_position a) (center (js ! i))"
  let ?js1 = "js[i := radiusStep ?m ?d (js ! i)]"
  let ?js2 = "?js1[i := reflectorStep a ?m (?js1 ! i)]"
  have d1: "distinct (map jid ?js1)" and l1: "i < length ?js1"
    using assms by (simp_all add: map_jid_update)
  have d2: "distinct (map jid ?js2)" and l2: "i < length ?js2"
    using d1 l1 by (simp_all add: map_jid_update)
  have "junctionCallback a i js = releaseIfPassed a i ?js2"
    using False preemptByRadius_eq [OF assms, of ?m ?d]
      activateReflectors_eq [OF d1 l1, of a ?m]
    by (simp add: junctionCallback_def Let_def)
  also have "\<dots> = Inr (?js2[i := releaseStep a (?js2 ! i)])"
    by (rule releaseIfPassed_eq [OF d2 l2])
  also have "\<dots> = Inr (js[i := junctionStep a (js ! i)])"
    using False assms by (simp add: junctionStep_def)
  finally show ?thesis .
qed

lemma forEachIndex_eq:
  assumes "\<And>i js. distinct (map jid js) \<Longrightarrow> i < length js \<Longrightarrow> f i js = Inr (js[i := g (js ! i)])"
    and "\<And>j. jid (g j) = jid j"
  shows "distinct (map jid js) \<Longrightarrow> \<forall>i \<in> set ks. i < length js \<Longrightarrow>
     forEachIndex f ks js = Inr (fold (\<lambda>i js. js[i := g (js ! i)]) ks js)"
proof (induction ks arbitrary: js)
  case Nil
  then show ?case by simp
next
  case (Cons k ks)
  have k: "k < length js" using Cons.prems by simp
  have d: "distinct (map jid (js[k := g (js ! k)]))"
    using Cons.prems(1) k by (simp add: map_jid_update assms(2))
  have "forEachIndex f ks (js[k := g (js ! k)]) =
      Inr (fold (\<lambda>i js. js[i := g (js ! i)]) ks (js[k := g (js ! k)]))"
    using Cons.prems(2) by (intro Cons.IH [OF d]) simp
  then show ?case
    using assms(1) [OF Cons.prems(1) k] by simp
qed

lemma fold_update_upt:
  "n \<le> length js \<Longrightarrow>
   fold (\<lambda>i js. js[i := g (js ! i)]) [0 ..< n] js = map g (take n js) @ drop n js"
proof (induction n)
  case 0
  then show ?case by simp
next
  case (Suc n)
  then have n: "n < length js" by simp
  have "fold (\<lambda>i js. js[i := g (js ! i)]) [0 ..< Suc n] js =
      (map g (take n js) @ drop n js)[n := g ((map g (take n js) @ drop n js) ! n)]"
    using Suc by simp
  also have "\<dots> = map g (take n js) @ (drop n js)[0 := g (js ! n)]"
    using n by (simp add: list_update_append nth_append)
  also have "\<dots> = map g (take (Suc n) js) @ drop (Suc n) js"
    using n by (simp add: take_Suc_conv_app_nth Cons_nth_drop_Suc [symmetric])
  finally show ?case .
qed

lemma updateAmbulanceLogic_eq:
  assumes "distinct (map jid js)"
  shows "updateAmbulanceLogic amb js =
     Inr (case amb of
            None \<Rightarrow> js
          | Some a \<Rightarrow>
              if \<not> model a \<or> length (path a) = 0 \<or> currentPathIndex a \<ge> length (path a) then js
              else map (junctionStep a) js)"
proof (cases amb)
  case None
  then show ?thesis by (simp add: updateAmbulanceLogic_def)
next
  case (Some a)
  have "forEachIndex (junctionCallback a) [0 ..< length js] js =
      Inr (fold (\<lambda>i js. js[i := junctionStep a (js ! i)]) [0 ..< length js] js)"
    using assms by (intro forEachIndex_eq junctionCallback_eq) simp_all
  then show ?thesis
    using Some by (simp add: updateAmbulanceLogic_def fold_update_upt)
qed

section \<open>Release\<close>

lemmas junction_ops = givePriority_def markApproaching_def markPassed_def chainReflector_def
  released_def preemptJunction_def releaseJunction_def

lemma sgn_pos_iff: "(0 < sgn (x::real)) = (0 < x)" by (simp add: sgn_if)
lemma sgn_neg_iff: "(sgn (x::real) < 0) = (x < 0)" by (simp add: sgn_if)

lemma releaseDue_beyond:
  assumes "releaseDue a cx" "currentPathIndex a < length (path a)"
  shows "beyondThreshold (ambulanceDirectionX a) cx (vx (amb_position a))
       \<and> beyondThreshold (ambulanceDirectionX a) cx (vx (path a ! currentPathIndex a))"
proof (cases "currentPathIndex a + 1 = length (path a)")
  case False
  with assms show ?thesis
    by (auto simp add: releaseDue_def beyondThreshold_def Let_def split: if_splits)
next
  case True
  then have dir: "ambulanceDirectionX a = sgn (vx (path a ! currentPathIndex a) - vx (amb_position a))"
    using assms(2) by (auto simp add: ambulanceDirectionX_def)
  from assms(1) have "beyondThreshold (ambulanceDirectionX a) cx (vx (amb_position a))"
    by (auto simp add: releaseDue_def beyondThreshold_def Let_def split: if_splits)
  moreover from this have "beyondThreshold (ambulanceDirectionX a) cx (vx (path a ! currentPathIndex a))"
    unfolding beyondThreshold_def dir sgn_pos_iff sgn_neg_iff by linarith
  ultimately show ?thesis by simp
qed

lemma passed_radiusStep [simp]: "hasAmbulancePassed (radiusStep m d j) = hasAmbulancePassed j"
  by (simp add: radiusStep_def junction_ops Let_def)

lemma passed_fireReflector [simp]: "hasAmbulancePassed (fireReflector k j) = hasAmbulancePassed j"
  by (simp add: fireReflector_def junction_ops Let_def)

lemma passed_scanStep [simp]: "hasAmbulancePassed (scanStep a ks j) = hasAmbulancePassed j"
  by (induction ks) simp_all

lemma passed_reflectorStep [simp]: "hasAmbulancePassed (reflectorStep a m j) = hasAmbulancePassed j"
  by (simp add: reflectorStep_def)

lemma center_fireReflector [simp]: "center (fireReflector k j) = center j"
  by (simp add: fireReflector_def junction_ops Let_def)

lemma center_scanStep [simp]: "center (scanStep a ks j) = center j"
  by (induction ks) simp_all

lemma center_reflectorStep [simp]: "center (reflectorStep a m j) = center j"
  by (simp add: reflectorStep_def)

lemma length_lights_givePriority [simp]:
  "length (trafficLights (givePriority j)) = length (trafficLights j)"
  by (simp add: givePriority_def Let_def)

lemma lights_radiusStep [simp]:
  "length (trafficLights (radiusStep m d j)) = length (trafficLights j)"
  by (simp add: radiusStep_def preemptJunction_def markApproaching_def)

lemma lights_fireReflector [simp]:
  "length (trafficLights (fireReflector k j)) = length (trafficLights j)"
  by (simp add: fireReflector_def preemptJunction_def markApproaching_def chainReflector_def Let_def)

lemma lights_scanStep [simp]:
  "length (trafficLights (scanStep a ks j)) = length (trafficLights j)"
  by (induction ks) simp_all

lemma lights_reflectorStep [simp]:
  "length (trafficLights (reflectorStep a m j)) = length (trafficLights j)"
  by (simp add: reflectorStep_def)

lemma junctionStep_passed:
  assumes "\<not> hasAmbulancePassed j" "hasAmbulancePassed (junctionStep a j)"
  shows "releaseDue a (vx (center j))
    \<and> junctionStep a j =
        releaseJunction (reflectorStep a (ambulanceMovingTowardsJunction a j)
          (radiusStep (ambulanceMovingTowardsJunction a j) (distanceTo (amb_position a) (center j)) j))"
  using assms by (auto simp add: junctionStep_def releaseStep_def split: if_splits)

lemma approaching_radiusStep: "isAmbulanceApproaching j \<Longrightarrow> isAmbulanceApproaching (radiusStep m d j)"
  by (simp add: radiusStep_def)

lemma approaching_fireReflector: "isAmbulanceApproaching (fireReflector k j)"
  by (simp add: fireReflector_def junction_ops Let_def)

lemma approaching_scanStep: "isAmbulanceApproaching j \<Longrightarrow> isAmbulanceApproaching (scanStep a ks j)"
  by (induction ks) (simp_all add: approaching_fireReflector)

lemma approaching_reflectorStep: "isAmbulanceApproaching j \<Longrightarrow> isAmbulanceApproaching (reflectorStep a m j)"
  by (simp add: reflectorStep_def approaching_scanStep)

lemma junctionStep_fires:
  assumes "\<not> hasAmbulancePassed j" "isAmbulanceApproaching j" "releaseDue a (vx (center j))"
  shows "hasAmbulancePassed (junctionStep a j)"
  using assms
  by (simp add: junctionStep_def releaseStep_def approaching_reflectorStep approaching_radiusStep
      releaseJunction_def markPassed_def)

lemma not_overridden_setLight:
  "list_all (\<lambda>l. \<not> isOverridden l) tls \<Longrightarrow> list_all (\<lambda>l. \<not> isOverridden l) (setLight s k st tls)"
  by (auto simp add: list_all_length setLight_def setLightState_def Let_def nth_list_update)

lemma not_overridden_phaseLights:
  "list_all (\<lambda>l. \<not> isOverridden l) tls \<Longrightarrow> list_all (\<lambda>l. \<not> isOverridden l) (phaseLights s p tls)"
  unfolding phaseLights_def Let_def
  by (cases p) (simp_all add: not_overridden_setLight)

lemma not_overridden_releaseLights: "\<forall>l \<in> set (releaseLights tls). \<not> isOverridden l"
proof -
  have "list_all (\<lambda>l. \<not> isOverridden l) (map releasePriority tls)"
    by (simp add: list_all_iff releasePriority_def)
  then have "list_all (\<lambda>l. \<not> isOverridden l) (releaseLights tls)"
    unfolding releaseLights_def using not_overridden_phaseLights by simp
  then show ?thesis by (simp add: list_all_iff)
qed

lemma nth_setLight:
  "m < length tls \<Longrightarrow> setLight s k st tls ! m =
     (if m = k then fst (setLightState (tls ! m) st False s) else tls ! m)"
  by (simp add: setLight_def)

lemma red_releaseLights:
  assumes "4 \<le> length tls" "k < 4"
  shows "currentState (releaseLights tls ! k) = RED"
  using assms
  by (simp add: releaseLights_def phaseLights_def Let_def nth_setLight setLightState_def releasePriority_def)

lemma releaseJunction_effects:
  "(\<forall>l \<in> set (trafficLights (releaseJunction j)). \<not> isOverridden l)
   \<and> length (trafficLights (releaseJunction j)) = length (trafficLights j)
   \<and> currentPhaseIndex (releaseJunction j) = 2
   \<and> currentPhaseTimer (releaseJunction j) = 1
   \<and> reflectorChain (releaseJunction j) = []
   \<and> hasAmbulancePassed (releaseJunction j)
   \<and> \<not> isAmbulanceApproaching (releaseJunction j)
   \<and> isUnderNormalCycle (releaseJunction j)"
  using not_overridden_releaseLights [of "trafficLights j"]
  by (simp add: releaseJunction_def markPassed_def released_def)

lemma updateAmbulanceLogic_nth:
  assumes "distinct (map jid js)" "i < length js" "model a" "currentPathIndex a < length (path a)"
  shows "updateAmbulanceLogic (Some a) js = Inr (map (junctionStep a) js)"
  using updateAmbulanceLogic_eq [OF assms(1), of "Some a"] assms by auto


section \<open>The reflector scan\<close>











lemma sensorDue_radiusStep [simp]: "sensorDue a (radiusStep m d j) k = sensorDue a j k"
  by (simp add: sensorDue_def radiusStep_def preemptJunction_def markApproaching_def givePriority_def Let_def)

lemma reflectors_radiusStep [simp]: "reflectors (radiusStep m d j) = reflectors j"
  by (simp add: radiusStep_def preemptJunction_def markApproaching_def givePriority_def Let_def)

lemma reflectors_releaseStep [simp]: "reflectors (releaseStep a j) = reflectors j"
  by (simp add: releaseStep_def releaseJunction_def markPassed_def released_def)



section \<open>Detection in the example state\<close>

lemma ex_dist: "distinct (map jid [exampleJunction])" by simp



section \<open>Phase application\<close>






lemma exampleLights_length: "length (trafficLights exampleJunction) = 4"
  by (simp add: exampleJunction_def)






section \<open>The light cycle\<close>



lemma phaseLights_Nil_iff [simp]: "(phaseLights q p tls = []) = (tls = [])"
  by (metis length_0_conv length_phaseLights)





















section \<open>Cars\<close>


lemma moveAlongRoad_keeps [simp]:
  "isStoppedForLight (moveAlongRoad dt c) = isStoppedForLight c"
  "isEvading (moveAlongRoad dt c) = isEvading c"
  "currentSpeed (moveAlongRoad dt c) = currentSpeed c"
  "speed (moveAlongRoad dt c) = speed c"
  by (simp_all add: moveAlongRoad_def)

lemma wrapAround_keeps [simp]:
  "isStoppedForLight (wrapAround c) = isStoppedForLight c"
  "isEvading (wrapAround c) = isEvading c"
  "currentSpeed (wrapAround c) = currentSpeed c"
  "speed (wrapAround c) = speed c"
  by (simp_all add: wrapAround_def Let_def)

lemma moveToTargetZ_keeps [simp]:
  "isStoppedForLight (moveToTargetZ dt c) = isStoppedForLight c"
  "isEvading (moveToTargetZ dt c) = isEvading c"
  "currentSpeed (moveToTargetZ dt c) = currentSpeed c"
  "speed (moveToTargetZ dt c) = speed c"
  by (simp_all add: moveToTargetZ_def Let_def)


lemma startEvade_keeps [simp]:
  "isStoppedForLight (startEvade z c) = isStoppedForLight c"
  "currentSpeed (startEvade z c) = currentSpeed c"
  by (simp_all add: startEvade_def Let_def)

lemma stopEvade_keeps [simp]:
  "isStoppedForLight (stopEvade c) = isStoppedForLight c"
  "currentSpeed (stopEvade c) = currentSpeed c"
  "speed (stopEvade c) = speed c"
  by (simp_all add: stopEvade_def)




lemma setupCar_not_stopped: "\<not> isStoppedForLight (setupCar x l d v)"
  by (simp add: setupCar_def newProceduralCar_def Let_def)

lemma evading_stopEvade: "isEvading c \<Longrightarrow> \<not> isEvading (stopEvade c)"
  by (simp add: stopEvade_def)

lemma updateCar_absent_not_evading: "\<not> isEvading (updateCar dt act None lane js c)"
  by (simp add: updateCar_def ambulanceInteraction_def Let_def evading_stopEvade)

lemma ambulanceActive_None: "ambulanceActive None = False"
  by (simp add: ambulanceActive_def)

section \<open>No call raises\<close>









lemma manageJunctionCycle_total: "\<exists>j'. manageJunctionCycle dt j = Inr j'"
  by (simp add: manageJunctionCycle_def Let_def applyJunctionPhaseState_def cycle_length)

lemma forEachJunction_total:
  "(\<And>j. \<exists>j'. f j = Inr j') \<Longrightarrow> \<exists>js'. forEachJunction f js = Inr js'"
proof (induction js)
  case Nil
  then show ?case by simp
next
  case (Cons j js)
  from Cons.prems obtain j' where "f j = Inr j'" by blast
  moreover from Cons.IH [OF Cons.prems] obtain js' where "forEachJunction f js = Inr js'" by blast
  ultimately show ?case by simp
qed

lemma manageJunctionCycles_total: "\<exists>js'. manageJunctionCycles dt js = Inr js'"
  unfolding manageJunctionCycles_def by (rule forEachJunction_total) (rule manageJunctionCycle_total)



section \<open>Runs\<close>

lemma later_refl: "later j j"
  by (simp add: later_def)

lemma later_trans: "later j1 j2 \<Longrightarrow> later j2 j3 \<Longrightarrow> later j1 j3"
  by (auto simp add: later_def)

lemma approaching_releaseStep:
  "isAmbulanceApproaching j \<Longrightarrow>
   isAmbulanceApproaching (releaseStep a j) \<or> hasAmbulancePassed (releaseStep a j)"
  by (simp add: releaseStep_def releaseJunction_def markPassed_def)

lemma releaseStep_passed_not_approaching:
  "\<not> hasAmbulancePassed j \<Longrightarrow> hasAmbulancePassed (releaseStep a j) \<Longrightarrow>
   \<not> isAmbulanceApproaching (releaseStep a j)"
  by (auto simp add: releaseStep_def releaseJunction_def markPassed_def split: if_splits)

lemma later_junctionStep: "later j (junctionStep a j)"
proof (cases "hasAmbulancePassed j")
  case True
  then show ?thesis by (simp add: junctionStep_def later_def)
next
  case False
  let ?m = "ambulanceMovingTowardsJunction a j"
  let ?mid = "reflectorStep a ?m (radiusStep ?m (distanceTo (amb_position a) (center j)) j)"
  have js: "junctionStep a j = releaseStep a ?mid"
    using False by (simp add: junctionStep_def)
  have np: "\<not> hasAmbulancePassed ?mid" using False by simp
  have "isAmbulanceApproaching j \<Longrightarrow> isAmbulanceApproaching ?mid"
    by (simp add: approaching_reflectorStep approaching_radiusStep)
  then show ?thesis
    unfolding js later_def
    using False approaching_releaseStep [of ?mid a] releaseStep_passed_not_approaching [OF np, of a]
    by auto
qed

lemma applyJunctionPhaseState_flags:
  "applyJunctionPhaseState j q = Inr j' \<Longrightarrow>
   jid j' = jid j \<and> hasAmbulancePassed j' = hasAmbulancePassed j
   \<and> isAmbulanceApproaching j' = isAmbulanceApproaching j"
  by (auto simp add: applyJunctionPhaseState_def Let_def split: if_splits)

lemma later_manage: "manageJunctionCycle dt j = Inr j' \<Longrightarrow> later j j'"
  by (auto simp add: manageJunctionCycle_def Let_def later_def split: if_splits
      dest!: applyJunctionPhaseState_flags)

lemma forEachJunction_rel:
  assumes "\<And>j j'. f j = Inr j' \<Longrightarrow> R j j'"
  shows "forEachJunction f js = Inr js' \<Longrightarrow> list_all2 R js js'"
proof (induction js arbitrary: js')
  case Nil
  then show ?case by simp
next
  case (Cons j js)
  then show ?case
    using assms by (auto split: sum.splits)
qed

lemma later_manageJunctionCycles:
  "manageJunctionCycles dt js = Inr js' \<Longrightarrow> list_all2 later js js'"
  unfolding manageJunctionCycles_def by (rule forEachJunction_rel [OF later_manage])

lemma later_updateAmbulanceLogic:
  assumes "distinct (map jid js)"
  shows "\<exists>js'. updateAmbulanceLogic amb js = Inr js' \<and> list_all2 later js js'"
proof -
  have "list_all2 later js (map (junctionStep a) js)" for a
    by (simp add: list_all2_conv_all_nth later_junctionStep)
  moreover have "list_all2 later js js"
    by (simp add: list_all2_conv_all_nth later_refl)
  ultimately show ?thesis
    unfolding updateAmbulanceLogic_eq [OF assms] by (auto split: option.splits)
qed

lemma later_ids: "list_all2 later js js' \<Longrightarrow> map jid js' = map jid js"
  by (induction rule: list_all2_induct) (simp_all add: later_def)

lemma list_all2_later_trans:
  "list_all2 later js1 js2 \<Longrightarrow> list_all2 later js2 js3 \<Longrightarrow> list_all2 later js1 js3"
  by (rule list_all2_trans [of later later later]) (auto intro: later_trans)

lemma later_animate:
  assumes "distinct (map jid (junctions s))"
  shows "\<exists>s'. animate delta s = Inr s' \<and> list_all2 later (junctions s) (junctions s')"
proof -
  let ?dt = "min delta (1 / 20)"
  let ?amb1 = "case sim_ambulance s of None \<Rightarrow> None
     | Some a \<Rightarrow> (let a1 = ambulance_update ?dt a in if hasFadedOut a1 then None else Some a1)"
  obtain js1 where 1: "(case ?amb1 of None \<Rightarrow> Inr (junctions s)
               | Some a1 \<Rightarrow> updateAmbulanceLogic (Some a1) (junctions s)) = Inr js1"
    and l1: "list_all2 later (junctions s) js1"
  proof (cases ?amb1)
    case None
    have "list_all2 later (junctions s) (junctions s)"
      by (simp add: list_all2_conv_all_nth later_refl)
    with None that show ?thesis by simp
  next
    case (Some a1)
    with later_updateAmbulanceLogic [OF assms, of "Some a1"] that show ?thesis by auto
  qed
  obtain js2 where 2: "manageJunctionCycles ?dt js1 = Inr js2"
    using manageJunctionCycles_total by blast
  have l2: "list_all2 later (junctions s) js2"
    using l1 later_manageJunctionCycles [OF 2] by (rule list_all2_later_trans)
  have "animate delta s = Inr (s\<lparr> junctions := js2, sim_ambulance := ?amb1,
       proceduralCars := updateCarLogic ?dt ?amb1 js2 (proceduralCars s) \<rparr>)"
    using 1 2 by (simp add: animate_def Let_def)
  with l2 show ?thesis by simp
qed

lemma later_step:
  assumes "distinct (map jid (junctions s))"
  shows "\<exists>s'. step e s = Inr s' \<and> list_all2 later (junctions s) (junctions s')"
proof (cases e)
  case (Animate delta)
  with later_animate [OF assms] show ?thesis by simp
next
  case Activate
  then show ?thesis by (simp add: list_all2_conv_all_nth later_refl)
next
  case ModelLoaded
  then show ?thesis by (simp add: list_all2_conv_all_nth later_refl)
next
  case (SignalTimeout i k)
  then show ?thesis
    by (simp add: list_all2_conv_all_nth later_refl nth_list_update later_def)
qed

lemma later_run:
  "distinct (map jid (junctions s)) \<Longrightarrow>
   \<exists>s'. run evs s = Inr s' \<and> list_all2 later (junctions s) (junctions s')"
proof (induction evs arbitrary: s)
  case Nil
  then show ?case by (simp add: list_all2_conv_all_nth later_refl)
next
  case (Cons e es)
  from later_step [OF Cons.prems] obtain s1 where
    s1: "step e s = Inr s1" "list_all2 later (junctions s) (junctions s1)" by blast
  have "distinct (map jid (junctions s1))"
    using Cons.prems later_ids [OF s1(2)] by simp
  from Cons.IH [OF this] obtain s' where
    "run es s1 = Inr s'" "list_all2 later (junctions s1) (junctions s')" by blast
  with s1 show ?case
    by (auto intro: list_all2_later_trans)
qed

lemma entries_bound:
  "distinct (map jid (junctions s)) \<Longrightarrow> i < length (junctions s) \<Longrightarrow>
   (hasAmbulancePassed (junctions s ! i) \<longrightarrow> \<not> isAmbulanceApproaching (junctions s ! i)) \<Longrightarrow>
   preemptions i evs s
     \<le> (if isAmbulanceApproaching (junctions s ! i) \<or> hasAmbulancePassed (junctions s ! i)
         then 0 else 1)"
proof (induction evs arbitrary: s)
  case Nil
  then show ?case by (simp add: preemptions_def)
next
  case (Cons e es)
  from later_step [OF Cons.prems(1)] obtain s1 where
    s1: "step e s = Inr s1" "list_all2 later (junctions s) (junctions s1)" by blast
  have d1: "distinct (map jid (junctions s1))"
    using Cons.prems(1) later_ids [OF s1(2)] by simp
  have l1: "i < length (junctions s1)"
    using Cons.prems(2) s1(2) by (simp add: list_all2_lengthD)
  have lt: "later (junctions s ! i) (junctions s1 ! i)"
    using s1(2) Cons.prems(2) by (simp add: list_all2_conv_all_nth)
  have inv1: "hasAmbulancePassed (junctions s1 ! i) \<longrightarrow> \<not> isAmbulanceApproaching (junctions s1 ! i)"
    using lt Cons.prems(3) by (simp add: later_def)
  have split: "preemptions i (e # es) s =
      (if \<not> isAmbulanceApproaching (junctions s ! i) \<and> isAmbulanceApproaching (junctions s1 ! i)
       then 1 else 0) + preemptions i es s1"
    using s1(1) by (simp add: preemptions_def)
  from Cons.IH [OF d1 l1 inv1] lt Cons.prems(3) show ?case
    unfolding split by (auto simp add: later_def split: if_splits)
qed

lemma setupJunctions_fresh:
  "setupJunctions r ks = Inr js \<Longrightarrow>
   map jid js = filter (\<lambda>k. k < length (junctionCenters r)) ks
   \<and> (\<forall>j \<in> set js. \<not> hasAmbulancePassed j \<and> \<not> isAmbulanceApproaching j)"
proof (induction ks arbitrary: js)
  case Nil
  then show ?case by simp
next
  case (Cons k ks)
  show ?case
  proof (cases "k < length (junctionCenters r)")
    case False
    with Cons show ?thesis by (simp add: getJunctionCenter_def)
  next
    case True
    then have c: "fst (getJunctionCenter r (int k)) = Some (junctionCenters r ! k)"
      by (simp add: getJunctionCenter_def)
    from Cons.prems obtain j2 js0 where
      j2: "applyJunctionPhaseState (newJunctionData k (junctionCenters r ! k)) False = Inr j2"
      and js0: "setupJunctions r ks = Inr js0"
      and js: "js = j2\<lparr> reflectors :=
          map newSmartReflector (fst (getReflectorPositions r (int k) West)) \<rparr> # js0"
      by (simp add: c Let_def split: sum.splits)
    from applyJunctionPhaseState_flags [OF j2]
    have "jid j2 = k" "\<not> hasAmbulancePassed j2" "\<not> isAmbulanceApproaching j2"
      by (simp_all add: newJunctionData_def Let_def)
    with Cons.IH [OF js0] True js show ?thesis by simp
  qed
qed

lemma setupEnvironment_fresh:
  "setupEnvironment r = Inr js \<Longrightarrow>
   distinct (map jid js) \<and> (\<forall>j \<in> set js. \<not> hasAmbulancePassed j \<and> \<not> isAmbulanceApproaching j)"
  unfolding setupEnvironment_def using setupJunctions_fresh [of r "[0 ..< numJunctions Config]" js]
  by simp

section \<open>Facts about the example states\<close>

lemma threshold_value: "passedJunctionThreshold = 14"
  by (simp add: passedJunctionThreshold_def Config_def)

lemma exampleAmbulance_dir: "x < 200 \<Longrightarrow> ambulanceDirectionX (exampleAmbulance x) = 1"
  by (simp add: ambulanceDirectionX_def exampleAmbulance_def)

lemma preempted_fields:
  "jid (preemptJunction exampleJunction) = 0"
  "center (preemptJunction exampleJunction) = \<lparr> vx = 0, vy = 0.05, vz = 0 \<rparr>"
  "\<not> hasAmbulancePassed (preemptJunction exampleJunction)"
  "isAmbulanceApproaching (preemptJunction exampleJunction)"
  by (simp_all add: preemptJunction_def markApproaching_def givePriority_def Let_def exampleJunction_def)

lemma example_center: "vx (center exampleJunction) = 0"
  by (simp add: exampleJunction_def)

lemma example_releaseDue: "releaseDue (exampleAmbulance 20) 0"
  by (simp add: releaseDue_def Let_def exampleAmbulance_dir threshold_value)
     (simp add: exampleAmbulance_def)


lemma atEnd_update: "ambulance_update (1 / 20) exampleAmbulanceAtEnd = exampleAmbulanceFading"
  by (simp add: ambulance_update_def exampleAmbulanceAtEnd_def exampleAmbulanceFading_def
      Let_def subVectors_def lengthSq_def deactivate_def)

lemma fading_fields:
  "isDeactivating exampleAmbulanceFading" "\<not> hasFadedOut exampleAmbulanceFading"
  "fadeOutTimer exampleAmbulanceFading = 0"
  by (simp_all add: exampleAmbulanceFading_def exampleAmbulanceAtEnd_def)

lemma atEnd_active: "ambulanceActive (Some exampleAmbulanceAtEnd)"
  by (simp add: ambulanceActive_def exampleAmbulanceAtEnd_def)

lemma ex_move:
  "moveAlongRoad (1 / 20) (exampleCar\<lparr> isStoppedForLight := False \<rparr>) = exampleCarMoved"
  by (simp add: moveAlongRoad_def exampleCar_def exampleCarMoved_def)

lemma ex_wrap: "wrapAround exampleCarMoved = exampleCarMoved"
  by (simp add: wrapAround_def exampleCar_def exampleCarMoved_def Config_def)

lemma ex_z: "moveToTargetZ dt exampleCarMoved = exampleCarMoved"
  by (simp add: moveToTargetZ_def exampleCar_def exampleCarMoved_def)

lemma ex_speed: "zeroSpeedIfStopped (restoreSpeed exampleCarMoved) = exampleCarMoved"
  by (simp add: zeroSpeedIfStopped_def restoreSpeed_def exampleCar_def exampleCarMoved_def)

lemma ex_update: "car_update (1 / 20) (exampleCar\<lparr> isStoppedForLight := False \<rparr>) = exampleCarMoved"
  by (simp add: car_update_def ex_move ex_wrap ex_z ex_speed)

lemma ex_interaction:
  "isEvading (ambulanceInteraction True (Some (amb_position exampleAmbulanceAtEnd)) lane v
      exampleCarMoved)"
  by (simp add: ambulanceInteraction_def exampleCar_def exampleCarMoved_def
      exampleAmbulanceAtEnd_def Config_def Let_def)

lemma exampleCar_with_active:
  "map isEvading (updateCarLogic (1 / 20) (Some exampleAmbulanceAtEnd) [] [exampleCar]) = [True]"
  using atEnd_active
  by (simp add: updateCarLogic_def updateCar_def Let_def ex_update ex_interaction)

section \<open>The claims\<close>

text \<open>
  C1: in one call of \<open>updateAmbulanceLogic\<close> (one tick), a junction that had not been
  released is released (its \<open>hasAmbulancePassed\<close> flag turns true, which only the
  PREEMPTED-to-NORMAL transition does) only if the ambulance's position is beyond the
  release threshold past the junction centre in its direction of travel and its current
  path target is beyond that threshold too. The direction of travel is the one the code
  works with, \<open>ambulanceDirectionX\<close>. The junction ids are pairwise different, as
  \<open>setupEnvironment\<close> assigns them. The call never raises.
\<close>

theorem C1_release_only_beyond_threshold:
  assumes "distinct (map jid js)" and "i < length js" and "\<not> hasAmbulancePassed (js ! i)"
  shows "\<exists>js'. updateAmbulanceLogic amb js = Inr js' \<and> length js' = length js \<and>
           (hasAmbulancePassed (js' ! i) \<longrightarrow>
              (\<exists>a. amb = Some a \<and> currentPathIndex a < length (path a)
                 \<and> beyondThreshold (ambulanceDirectionX a) (vx (center (js ! i))) (vx (amb_position a))
                 \<and> beyondThreshold (ambulanceDirectionX a) (vx (center (js ! i)))
                      (vx (path a ! currentPathIndex a))))"
proof (cases amb)
  case None
  then show ?thesis
    using assms updateAmbulanceLogic_eq [OF assms(1), of amb] by simp
next
  case (Some a)
  show ?thesis
  proof (cases "\<not> model a \<or> length (path a) = 0 \<or> currentPathIndex a \<ge> length (path a)")
    case True
    then show ?thesis
      using assms Some updateAmbulanceLogic_eq [OF assms(1), of amb] by auto
  next
    case False
    then have eq: "updateAmbulanceLogic amb js = Inr (map (junctionStep a) js)"
      using Some updateAmbulanceLogic_eq [OF assms(1), of amb] by auto
    have "hasAmbulancePassed (junctionStep a (js ! i)) \<Longrightarrow>
        beyondThreshold (ambulanceDirectionX a) (vx (center (js ! i))) (vx (amb_position a))
        \<and> beyondThreshold (ambulanceDirectionX a) (vx (center (js ! i)))
            (vx (path a ! currentPathIndex a))"
      using junctionStep_passed [OF assms(3)] releaseDue_beyond False by auto
    then show ?thesis
      using eq assms(2) Some False by auto
  qed
qed

theorem C1_release_only_beyond_threshold_witness:
  "distinct (map jid [preemptJunction exampleJunction])
   \<and> 0 < length [preemptJunction exampleJunction]
   \<and> \<not> hasAmbulancePassed ([preemptJunction exampleJunction] ! 0)
   \<and> (\<exists>js'. updateAmbulanceLogic (Some (exampleAmbulance 20)) [preemptJunction exampleJunction] = Inr js'
        \<and> hasAmbulancePassed (js' ! 0))
   \<and> beyondThreshold (ambulanceDirectionX (exampleAmbulance 20)) 0 20
   \<and> beyondThreshold (ambulanceDirectionX (exampleAmbulance 20)) 0 200"
proof -
  let ?J = "preemptJunction exampleJunction"
  let ?A = "exampleAmbulance 20"
  have h1: "distinct (map jid [?J])" by simp
  have h2: "0 < length [?J]" by simp
  have h3: "\<not> hasAmbulancePassed ([?J] ! 0)" by (simp add: preempted_fields)
  have A: "model ?A" "currentPathIndex ?A < length (path ?A)"
    "vx (amb_position ?A) = 20" "vx (path ?A ! currentPathIndex ?A) = 200"
    by (simp_all add: exampleAmbulance_def)
  have run: "updateAmbulanceLogic (Some ?A) [?J] = Inr (map (junctionStep ?A) [?J])"
    by (rule updateAmbulanceLogic_nth [OF h1 h2 A(1,2)])
  have fired: "hasAmbulancePassed (junctionStep ?A ?J)"
    by (rule junctionStep_fires) (simp_all add: preempted_fields example_releaseDue example_center)
  from C1_release_only_beyond_threshold [OF h1 h2 h3, of "Some ?A"] run fired
  have "beyondThreshold (ambulanceDirectionX ?A) (vx (center ([?J] ! 0))) (vx (amb_position ?A))
      \<and> beyondThreshold (ambulanceDirectionX ?A) (vx (center ([?J] ! 0))) (vx (path ?A ! currentPathIndex ?A))"
    by auto
  then show ?thesis
    using h1 h2 h3 run fired by (simp add: A preempted_fields example_center)
qed




text \<open>
  C3: on a traffic light whose \<open>isOverridden\<close> flag is set, a call of \<open>setLightState\<close>
  with \<open>isPriorityOverride = false\<close> returns the light unchanged (current state, lamp
  appearance and every other field), raises nothing, and prints at most the one
  "blocked" line (none when silent); a call with \<open>isPriorityOverride = true\<close> does set
  the requested colour on the overridden light.
\<close>

theorem C3_blocked_when_overridden:
  assumes "isOverridden light"
  shows "setLightState light s False silent =
           (light, if silent then [] else [StateChangeBlocked (tl_id light) (light_state_name s)])
         \<and> currentState (fst (setLightState light s True silent)) = s
         \<and> isOverridden (fst (setLightState light s True silent))"
  using assms by (simp add: setLightState_def Let_def)

theorem C3_blocked_when_overridden_witness:
  "isOverridden (setPriority True (newTrafficLight ''J0_TL3''))
   \<and> currentState (setPriority True (newTrafficLight ''J0_TL3'')) = GREEN
   \<and> setLightState (setPriority True (newTrafficLight ''J0_TL3'')) RED False False =
       (setPriority True (newTrafficLight ''J0_TL3''),
        [StateChangeBlocked ''J0_TL3'' ''RED''])
   \<and> currentState (fst (setLightState (setPriority True (newTrafficLight ''J0_TL3'')) RED False False)) = GREEN"
proof -
  have ov: "isOverridden (setPriority True (newTrafficLight ''J0_TL3''))"
    by (simp add: setPriority_def newTrafficLight_def setLightState_def Let_def)
  have st: "currentState (setPriority True (newTrafficLight ''J0_TL3'')) = GREEN"
    by (simp add: setPriority_def newTrafficLight_def setLightState_def Let_def)
  have nm: "tl_id (setPriority True (newTrafficLight ''J0_TL3'')) = ''J0_TL3''"
    by (simp add: setPriority_def newTrafficLight_def setLightState_def Let_def)
  from C3_blocked_when_overridden [OF ov, of RED False] ov st nm
  show ?thesis by simp
qed

text \<open>
  C4: in the call of \<open>updateAmbulanceLogic\<close> in which a junction is released (it fires
  for a junction that is PREEMPTED at the start of the call when the release condition
  holds), the override is off on every light of the junction, the cycle is at the
  ALL_RED phase (index 2) with that phase's full duration in seconds, the reflector
  chain is empty and \<open>hasAmbulancePassed\<close> is true; with four lights all four show RED.
\<close>

theorem C4_release_side_effects:
  assumes "distinct (map jid js)" and "i < length js" and "\<not> hasAmbulancePassed (js ! i)"
    and "model a" and "currentPathIndex a < length (path a)"
  shows "\<exists>js'. updateAmbulanceLogic (Some a) js = Inr js' \<and> length js' = length js \<and>
           (isAmbulanceApproaching (js ! i) \<and> releaseDue a (vx (center (js ! i)))
              \<longrightarrow> hasAmbulancePassed (js' ! i)) \<and>
           (hasAmbulancePassed (js' ! i) \<longrightarrow>
              (\<forall>l \<in> set (trafficLights (js' ! i)). \<not> isOverridden l)
              \<and> length (trafficLights (js' ! i)) = length (trafficLights (js ! i))
              \<and> (4 \<le> length (trafficLights (js ! i)) \<longrightarrow>
                    (\<forall>k < 4. currentState (trafficLights (js' ! i) ! k) = RED))
              \<and> currentPhaseIndex (js' ! i) = 2
              \<and> phase (JUNCTION_CYCLE_DEFINITION ! currentPhaseIndex (js' ! i)) = ALL_RED
              \<and> currentPhaseTimer (js' ! i)
                  = duration (JUNCTION_CYCLE_DEFINITION ! currentPhaseIndex (js' ! i)) / 1000
              \<and> reflectorChain (js' ! i) = []
              \<and> \<not> isAmbulanceApproaching (js' ! i)
              \<and> isUnderNormalCycle (js' ! i))"
proof -
  let ?mid = "reflectorStep a (ambulanceMovingTowardsJunction a (js ! i))
          (radiusStep (ambulanceMovingTowardsJunction a (js ! i))
             (distanceTo (amb_position a) (center (js ! i))) (js ! i))"
  let ?J = "junctionStep a (js ! i)"
  have eq: "updateAmbulanceLogic (Some a) js = Inr (map (junctionStep a) js)"
    using updateAmbulanceLogic_nth assms by blast
  have fires: "isAmbulanceApproaching (js ! i) \<and> releaseDue a (vx (center (js ! i)))
      \<longrightarrow> hasAmbulancePassed (junctionStep a (js ! i))"
    using junctionStep_fires [OF assms(3)] by blast
  have eff: "(\<forall>l \<in> set (trafficLights ?J). \<not> isOverridden l)
     \<and> length (trafficLights ?J) = length (trafficLights (js ! i))
     \<and> (4 \<le> length (trafficLights (js ! i)) \<longrightarrow>
                    (\<forall>k < 4. currentState (trafficLights ?J ! k) = RED))
     \<and> currentPhaseIndex ?J = 2
     \<and> currentPhaseTimer ?J = 1
     \<and> reflectorChain ?J = []
     \<and> \<not> isAmbulanceApproaching ?J
     \<and> isUnderNormalCycle ?J" if p: "hasAmbulancePassed ?J"
  proof -
    have js: "?J = releaseJunction ?mid"
      using junctionStep_passed [OF assms(3) p] by simp
    have red: "4 \<le> length (trafficLights (js ! i)) \<longrightarrow>
        (\<forall>k < 4. currentState (trafficLights (releaseJunction ?mid) ! k) = RED)"
      by (simp add: releaseJunction_def markPassed_def released_def red_releaseLights)
    show ?thesis
      unfolding js using releaseJunction_effects [of ?mid] red by simp
  qed
  show ?thesis
    using eq fires eff assms(2)
    by (simp add: JUNCTION_CYCLE_DEFINITION_def)
qed

theorem C4_release_side_effects_witness:
  "distinct (map jid [preemptJunction exampleJunction])
   \<and> 0 < length [preemptJunction exampleJunction]
   \<and> \<not> hasAmbulancePassed ([preemptJunction exampleJunction] ! 0)
   \<and> model (exampleAmbulance 20)
   \<and> currentPathIndex (exampleAmbulance 20) < length (path (exampleAmbulance 20))
   \<and> isAmbulanceApproaching ([preemptJunction exampleJunction] ! 0)
   \<and> releaseDue (exampleAmbulance 20) (vx (center ([preemptJunction exampleJunction] ! 0)))
   \<and> (\<exists>js'. updateAmbulanceLogic (Some (exampleAmbulance 20)) [preemptJunction exampleJunction] = Inr js'
        \<and> hasAmbulancePassed (js' ! 0)
        \<and> list_all (\<lambda>l. \<not> isOverridden l \<and> currentState l = RED) (trafficLights (js' ! 0))
        \<and> length (trafficLights (js' ! 0)) = 4
        \<and> currentPhaseIndex (js' ! 0) = 2
        \<and> currentPhaseTimer (js' ! 0) = 1
        \<and> reflectorChain (js' ! 0) = []
        \<and> \<not> isAmbulanceApproaching (js' ! 0)
        \<and> isUnderNormalCycle (js' ! 0))"
proof -
  let ?J = "preemptJunction exampleJunction"
  let ?A = "exampleAmbulance 20"
  have h1: "distinct (map jid [?J])" by simp
  have h2: "0 < length [?J]" by simp
  have h3: "\<not> hasAmbulancePassed ([?J] ! 0)" by (simp add: preempted_fields)
  have A: "model ?A" "currentPathIndex ?A < length (path ?A)"
    by (simp_all add: exampleAmbulance_def)
  have pre: "isAmbulanceApproaching ([?J] ! 0)" "releaseDue ?A (vx (center ([?J] ! 0)))"
    by (simp_all add: preempted_fields example_releaseDue example_center)
  have len: "length (trafficLights ([?J] ! 0)) = 4"
    by (simp add: preemptJunction_def markApproaching_def exampleLights_length)
  from C4_release_side_effects [OF h1 h2 h3 A] pre
  obtain js' where js': "updateAmbulanceLogic (Some ?A) [?J] = Inr js'"
    "hasAmbulancePassed (js' ! 0)"
    "\<forall>l \<in> set (trafficLights (js' ! 0)). \<not> isOverridden l"
    "length (trafficLights (js' ! 0)) = length (trafficLights ([?J] ! 0))"
    "4 \<le> length (trafficLights ([?J] ! 0)) \<longrightarrow> (\<forall>k < 4. currentState (trafficLights (js' ! 0) ! k) = RED)"
    "currentPhaseIndex (js' ! 0) = 2"
    "currentPhaseTimer (js' ! 0) = duration (JUNCTION_CYCLE_DEFINITION ! currentPhaseIndex (js' ! 0)) / 1000"
    "reflectorChain (js' ! 0) = []" "\<not> isAmbulanceApproaching (js' ! 0)" "isUnderNormalCycle (js' ! 0)"
    by blast
  have "list_all (\<lambda>l. \<not> isOverridden l \<and> currentState l = RED) (trafficLights (js' ! 0))"
    using js'(3,4,5) len by (simp add: list_all_length)
  moreover have "currentPhaseTimer (js' ! 0) = 1"
    using js'(6,7) by (simp add: JUNCTION_CYCLE_DEFINITION_def)
  ultimately show ?thesis
    using h1 h2 h3 A pre js' len by auto
qed






text \<open>
  C7, as amended: once the ambulance is deactivating (its path has ended and it fades
  out), as after the fade, the per-tick car logic treats it as absent: it is not active,
  the car logic computes exactly what it computes with no ambulance, and after the tick
  no car is evading.
\<close>

theorem C7_deactivating_is_absent:
  assumes "isDeactivating a \<or> hasFadedOut a \<or> length (path a) \<le> currentPathIndex a"
  shows "\<not> ambulanceActive (Some a)
      \<and> updateCarLogic dt (Some a) js cars = updateCarLogic dt None js cars
      \<and> (\<forall>c \<in> set (updateCarLogic dt (Some a) js cars). \<not> isEvading c)"
proof -
  have na: "\<not> ambulanceActive (Some a)"
    using assms by (auto simp add: ambulanceActive_def)
  then have eq: "updateCarLogic dt (Some a) js cars = updateCarLogic dt None js cars"
    by (simp add: updateCarLogic_def Let_def ambulanceActive_None)
  have "\<forall>c \<in> set (updateCarLogic dt None js cars). \<not> isEvading c"
    by (simp add: updateCarLogic_def Let_def updateCar_absent_not_evading)
  with na eq show ?thesis by simp
qed

theorem C7_deactivating_is_absent_witness:
  "(isDeactivating (ambulance_update 0.05 exampleAmbulanceAtEnd)
     \<or> hasFadedOut (ambulance_update 0.05 exampleAmbulanceAtEnd)
     \<or> length (path (ambulance_update 0.05 exampleAmbulanceAtEnd))
         \<le> currentPathIndex (ambulance_update 0.05 exampleAmbulanceAtEnd))
   \<and> \<not> ambulanceActive (Some (ambulance_update 0.05 exampleAmbulanceAtEnd))
   \<and> updateCarLogic 0.05 (Some (ambulance_update 0.05 exampleAmbulanceAtEnd)) [] [exampleCar]
       = updateCarLogic 0.05 None [] [exampleCar]
   \<and> map isEvading (updateCarLogic 0.05 (Some (ambulance_update 0.05 exampleAmbulanceAtEnd)) []
        [exampleCar]) = [False]"
proof -
  let ?D = "ambulance_update 0.05 exampleAmbulanceAtEnd"
  have h: "isDeactivating ?D \<or> hasFadedOut ?D \<or> length (path ?D) \<le> currentPathIndex ?D"
    by (simp add: atEnd_update fading_fields)
  from C7_deactivating_is_absent [OF h, of "0.05" "[]" "[exampleCar]"]
  have "\<not> ambulanceActive (Some ?D)"
    and "updateCarLogic 0.05 (Some ?D) [] [exampleCar] = updateCarLogic 0.05 None [] [exampleCar]"
    and "\<forall>c \<in> set (updateCarLogic 0.05 (Some ?D) [] [exampleCar]). \<not> isEvading c"
    by simp_all
  moreover from this(3) have "map isEvading (updateCarLogic 0.05 (Some ?D) [] [exampleCar]) = [False]"
    by (simp add: updateCarLogic_def Let_def)
  ultimately show ?thesis using h by simp
qed
text \<open>
  The claim as stated fails. The ambulance reaches the end of its path and starts to fade
  (the fade has not run yet); a car in the evasion window that keeps evading while the
  ambulance is active stops evading in the first tick of the fade: the car logic does
  not treat the fading ambulance as active.
\<close>

theorem C7_counterexample:
  "isDeactivating (ambulance_update 0.05 exampleAmbulanceAtEnd)
   \<and> \<not> hasFadedOut (ambulance_update 0.05 exampleAmbulanceAtEnd)
   \<and> fadeOutTimer (ambulance_update 0.05 exampleAmbulanceAtEnd) < ambulanceFadeOutDuration Config
   \<and> isEvading exampleCar
   \<and> map isEvading (updateCarLogic 0.05 (Some exampleAmbulanceAtEnd) [] [exampleCar]) = [True]
   \<and> map isEvading (updateCarLogic 0.05 (Some (ambulance_update 0.05 exampleAmbulanceAtEnd)) []
        [exampleCar]) = [False]
   \<and> \<not> ambulanceActive (Some (ambulance_update 0.05 exampleAmbulanceAtEnd))"
proof -
  let ?D = "ambulance_update 0.05 exampleAmbulanceAtEnd"
  have d: "isDeactivating ?D" "\<not> hasFadedOut ?D" "fadeOutTimer ?D < ambulanceFadeOutDuration Config"
    by (simp_all add: atEnd_update fading_fields Config_def)
  have na: "\<not> ambulanceActive (Some ?D)"
    using d(1) by (simp add: ambulanceActive_def)
  have "\<forall>c \<in> set (updateCarLogic 0.05 (Some ?D) [] [exampleCar]). \<not> isEvading c"
    using na by (simp add: updateCarLogic_def Let_def updateCar_absent_not_evading)
  then have "map isEvading (updateCarLogic 0.05 (Some ?D) [] [exampleCar]) = [False]"
    by (simp add: updateCarLogic_def Let_def)
  then show ?thesis
    using d na exampleCar_with_active by (simp add: exampleCar_def)
qed



text \<open>
  C9: for a junction index below zero or not below the number of junction centres,
  \<open>getJunctionCenter\<close> returns null and \<open>getReflectorPositions\<close> returns the empty
  list, each with one warning and without raising; the caller \<open>setupEnvironment\<close>
  builds no junction for such an index and goes on with the next one.
\<close>

theorem C9_out_of_range_lookups:
  assumes "i < 0 \<or> int (length (junctionCenters r)) \<le> i"
  shows "getJunctionCenter r i = (None, [InvalidJunctionCenter i])
       \<and> getReflectorPositions r i d = ([], [InvalidJunctionIndex i])
       \<and> (\<forall>k ks. int k = i \<longrightarrow> setupJunctions r (k # ks) = setupJunctions r ks)"
  using assms by (auto simp add: getJunctionCenter_def getReflectorPositions_def)

theorem C9_out_of_range_lookups_witness:
  "((1::int) < 0 \<or> int (length (junctionCenters \<lparr> junctionCenters = [\<lparr> vx = 0, vy = 0.05, vz = 0 \<rparr>],
                                                     road_surfaceY = 0.05 \<rparr>)) \<le> 1)
   \<and> getJunctionCenter \<lparr> junctionCenters = [\<lparr> vx = 0, vy = 0.05, vz = 0 \<rparr>], road_surfaceY = 0.05 \<rparr> 1
       = (None, [InvalidJunctionCenter 1])
   \<and> getReflectorPositions \<lparr> junctionCenters = [\<lparr> vx = 0, vy = 0.05, vz = 0 \<rparr>], road_surfaceY = 0.05 \<rparr> 1 West
       = ([], [InvalidJunctionIndex 1])
   \<and> setupJunctions \<lparr> junctionCenters = [\<lparr> vx = 0, vy = 0.05, vz = 0 \<rparr>], road_surfaceY = 0.05 \<rparr> [1]
       = Inr []"
proof -
  let ?r = "\<lparr> junctionCenters = [\<lparr> vx = 0, vy = 0.05, vz = 0 \<rparr>], road_surfaceY = 0.05 \<rparr>"
  have h: "(1::int) < 0 \<or> int (length (junctionCenters ?r)) \<le> 1" by simp
  from C9_out_of_range_lookups [OF h, of West]
  have "getJunctionCenter ?r 1 = (None, [InvalidJunctionCenter 1])"
    and "getReflectorPositions ?r 1 West = ([], [InvalidJunctionIndex 1])"
    and "setupJunctions ?r (1 # []) = setupJunctions ?r []" by simp_all
  then show ?thesis using h by simp
qed

text \<open>
  C10: with pairwise different junction ids (as after \<open>setupEnvironment\<close>), every run of
  frames, ambulance activations and timer events goes through without raising and keeps
  the junction list's length; a junction whose \<open>hasAmbulancePassed\<close> flag is set has it
  set at the end of the run, with its \<open>isAmbulanceApproaching\<close> flag unchanged, and every
  call of \<open>updateAmbulanceLogic\<close> leaves that junction exactly as it is; and when passed
  excludes approaching at the start (as after setup), the junction enters PREEMPTED at
  most once in the run.
\<close>

theorem C10_passed_is_final:
  assumes "distinct (map jid (junctions s))" and "i < length (junctions s)"
  shows "\<exists>s'. run evs s = Inr s' \<and> length (junctions s') = length (junctions s)
      \<and> (hasAmbulancePassed (junctions s ! i) \<longrightarrow>
            hasAmbulancePassed (junctions s' ! i)
            \<and> isAmbulanceApproaching (junctions s' ! i) = isAmbulanceApproaching (junctions s ! i)
            \<and> (\<exists>js'. updateAmbulanceLogic amb (junctions s) = Inr js'
                  \<and> js' ! i = junctions s ! i))
      \<and> ((hasAmbulancePassed (junctions s ! i) \<longrightarrow> \<not> isAmbulanceApproaching (junctions s ! i))
            \<longrightarrow> preemptions i evs s \<le> 1)"
proof -
  from later_run [OF assms(1), of evs] obtain s' where
    s': "run evs s = Inr s'" "list_all2 later (junctions s) (junctions s')" by blast
  have len: "length (junctions s') = length (junctions s)"
    using s'(2) by (simp add: list_all2_lengthD)
  have lt: "later (junctions s ! i) (junctions s' ! i)"
    using s'(2) assms(2) by (simp add: list_all2_conv_all_nth)
  have skip: "\<exists>js'. updateAmbulanceLogic amb (junctions s) = Inr js' \<and> js' ! i = junctions s ! i"
    if "hasAmbulancePassed (junctions s ! i)"
    using that assms(2) unfolding updateAmbulanceLogic_eq [OF assms(1)]
    by (auto simp add: junctionStep_def split: option.splits)
  have once: "preemptions i evs s \<le> 1"
    if "hasAmbulancePassed (junctions s ! i) \<longrightarrow> \<not> isAmbulanceApproaching (junctions s ! i)"
    using entries_bound [OF assms that, of evs] by (simp split: if_splits)
  show ?thesis
    using s'(1) len lt skip once by (auto simp add: later_def)
qed

theorem C10_passed_is_final_witness:
  "distinct (map jid (junctions (exampleSimulation\<lparr> junctions := [releaseJunction exampleJunction] \<rparr>)))
   \<and> 0 < length (junctions (exampleSimulation\<lparr> junctions := [releaseJunction exampleJunction] \<rparr>))
   \<and> hasAmbulancePassed (junctions (exampleSimulation\<lparr> junctions := [releaseJunction exampleJunction] \<rparr>) ! 0)
   \<and> (\<exists>s'. run [Animate 0.016, Activate, Animate 0.05]
               (exampleSimulation\<lparr> junctions := [releaseJunction exampleJunction] \<rparr>) = Inr s'
         \<and> hasAmbulancePassed (junctions s' ! 0)
         \<and> \<not> isAmbulanceApproaching (junctions s' ! 0))
   \<and> preemptions 0 [Animate 0.016, Activate, Animate 0.05]
        (exampleSimulation\<lparr> junctions := [releaseJunction exampleJunction] \<rparr>) \<le> 1"
proof -
  let ?s = "exampleSimulation\<lparr> junctions := [releaseJunction exampleJunction] \<rparr>"
  let ?evs = "[Animate 0.016, Activate, Animate 0.05]"
  have h1: "distinct (map jid (junctions ?s))" by simp
  have h2: "0 < length (junctions ?s)" by simp
  have p: "hasAmbulancePassed (junctions ?s ! 0)" "\<not> isAmbulanceApproaching (junctions ?s ! 0)"
    by (simp_all add: releaseJunction_def markPassed_def)
  from C10_passed_is_final [OF h1 h2, of ?evs None]
  obtain s' where "run ?evs ?s = Inr s'"
    and "hasAmbulancePassed (junctions ?s ! 0) \<longrightarrow>
            hasAmbulancePassed (junctions s' ! 0)
            \<and> isAmbulanceApproaching (junctions s' ! 0) = isAmbulanceApproaching (junctions ?s ! 0)"
    and "(hasAmbulancePassed (junctions ?s ! 0) \<longrightarrow> \<not> isAmbulanceApproaching (junctions ?s ! 0))
            \<longrightarrow> preemptions 0 ?evs ?s \<le> 1"
    by blast
  with p h1 h2 show ?thesis by blast
qed

end
